theory Spec2Isabelle
  imports Complex_Main "HOL-Library.AList" "HOL-Library.Sublist" "HOL-Library.Product_Lexorder"
begin

section \<open>Python numbers\<close>

text \<open>
  Python \<^verbatim>\<open>int\<close> is \<^typ>\<open>int\<close>. A Python \<^verbatim>\<open>float\<close> is an IEEE-754 binary64 number; a finite
  one is modelled by the rational it denotes, and every arithmetic operation rounds its exact
  result to the nearest number with a 53-bit significand, ties to even (\<open>fl\<close>). The exponent
  is not bounded in \<open>fl\<close>: overflow beyond the largest double is tested where the program can
  reach it (\<open>int_times_float\<close>, \<open>int_true_divide\<close>), and infinities and NaN are not values of
  the model, so the floats read from the card store are finite.
\<close>

type_synonym double = rat

text \<open>Round to the nearest integer, ties to the even one.\<close>

definition rne :: "rat \<Rightarrow> int" where
  "rne x = (let n = \<lfloor>x\<rfloor>; r = x - of_int n in
     if r < 1/2 then n else if 1/2 < r then n + 1 else if even n then n else n + 1)"

text \<open>The binary exponent of a positive rational: \<open>2 powi expo x \<le> x < 2 powi (expo x + 1)\<close>.\<close>

function expo :: "rat \<Rightarrow> int" where
  "expo x = (if x \<le> 0 then 0 else if x < 1 then expo (2 * x) - 1
             else if 2 \<le> x then expo (x / 2) + 1 else 0)"
  by pat_completeness auto
termination
proof -
  have floor_half_less: "\<lfloor>t / 2\<rfloor> < \<lfloor>t\<rfloor>" if "2 \<le> t" for t :: rat
  proof -
    have "of_int \<lfloor>t / 2\<rfloor> \<le> t / 2" by (rule of_int_floor_le)
    then have "of_int (\<lfloor>t / 2\<rfloor> + 1) \<le> t" using that by simp
    then have "\<lfloor>t / 2\<rfloor> + 1 \<le> \<lfloor>t\<rfloor>" by (simp only: le_floor_iff)
    then show ?thesis by simp
  qed
  show ?thesis
  proof (relation "measure (\<lambda>x. if x < 1 then nat \<lfloor>1 / x\<rfloor> + 1 else nat \<lfloor>x\<rfloor>)")
    show "wf (measure (\<lambda>x::rat. if x < 1 then nat \<lfloor>1 / x\<rfloor> + 1 else nat \<lfloor>x\<rfloor>))"
      by simp
  next
    fix x :: rat assume a: "\<not> x \<le> 0" "x < 1"
    show "(2 * x, x) \<in> measure (\<lambda>x. if x < 1 then nat \<lfloor>1 / x\<rfloor> + 1 else nat \<lfloor>x\<rfloor>)"
    proof (cases "2 * x < 1")
      case True
      then have "2 \<le> 1 / x" using a by (simp add: field_simps)
      then have "\<lfloor>(1 / x) / 2\<rfloor> < \<lfloor>1 / x\<rfloor>" by (rule floor_half_less)
      moreover have "(1 / x) / 2 = 1 / (2 * x)" by simp
      ultimately have "\<lfloor>1 / (2 * x)\<rfloor> < \<lfloor>1 / x\<rfloor>" by (simp only:)
      moreover have "0 \<le> \<lfloor>1 / (2 * x)\<rfloor>" using a by simp
      ultimately have "nat \<lfloor>1 / (2 * x)\<rfloor> < nat \<lfloor>1 / x\<rfloor>" by linarith
      then show ?thesis using True a by (simp only: in_measure if_True)
    next
      case False
      then have "1 \<le> 2 * x" "2 * x < 2" using a by simp_all
      then have f: "\<lfloor>2 * x\<rfloor> = 1" by (simp add: floor_eq_iff)
      have "1 \<le> 1 / x" using a by (simp add: field_simps)
      then have "1 \<le> \<lfloor>1 / x\<rfloor>" by (simp add: le_floor_iff)
      then show ?thesis using False a f by simp
    qed
  next
    fix x :: rat assume a: "\<not> x \<le> 0" "\<not> x < 1" "2 \<le> x"
    have "\<lfloor>x / 2\<rfloor> < \<lfloor>x\<rfloor>" using a(3) by (rule floor_half_less)
    moreover have "1 \<le> x / 2" using a by simp
    moreover have "0 \<le> \<lfloor>x / 2\<rfloor>" using a by simp
    ultimately show "(x / 2, x) \<in> measure (\<lambda>x. if x < 1 then nat \<lfloor>1 / x\<rfloor> + 1 else nat \<lfloor>x\<rfloor>)"
      using a by simp
  qed
qed

declare expo.simps [simp del]

text \<open>Rounding of an exact result to binary64: 53 significant bits, nearest, ties to even.\<close>

definition fl :: "rat \<Rightarrow> double" where
  "fl x = (if x = 0 then 0 else
     let u = 2 powi (expo \<bar>x\<bar> - 52) in sgn x * of_int (rne (\<bar>x\<bar> / u)) * u)"

definition fadd :: "double \<Rightarrow> double \<Rightarrow> double" where
  "fadd a b = fl (a + b)"

definition fsub :: "double \<Rightarrow> double \<Rightarrow> double" where
  "fsub a b = fl (a - b)"

definition fmul :: "double \<Rightarrow> double \<Rightarrow> double" where
  "fmul a b = fl (a * b)"

text \<open>\<^verbatim>\<open>a / b\<close> on floats, and on ints (true division is correctly rounded), for \<open>b \<noteq> 0\<close>.\<close>

definition fdiv :: "double \<Rightarrow> double \<Rightarrow> double" where
  "fdiv a b = fl (a / b)"

text \<open>The float an int is converted to when it meets a float in an arithmetic operation.\<close>

definition float_of_int :: "int \<Rightarrow> double" where
  "float_of_int i = fl (of_int i)"

text \<open>
  \<^verbatim>\<open>round(x, ndigits)\<close> on a float: the decimal with \<open>ndigits\<close> places nearest to the exact
  value of \<open>x\<close> (ties to even), converted back to the nearest double.
\<close>

definition py_round :: "double \<Rightarrow> nat \<Rightarrow> double" where
  "py_round x ndigits = fl (of_int (rne (x * 10 ^ ndigits)) / 10 ^ ndigits)"

text \<open>\<^verbatim>\<open>int(x)\<close> on a finite float truncates towards zero.\<close>

definition py_int :: "double \<Rightarrow> int" where
  "py_int x = (if 0 \<le> x then \<lfloor>x\<rfloor> else \<lceil>x\<rceil>)"

datatype py_exception = OverflowError | KeyError | ValueError | ZeroDivisionError

text \<open>
  \<^verbatim>\<open>int(i * x)\<close> for an int \<open>i\<close> and a float \<open>x\<close>. The int is converted to a float first, which
  raises OverflowError when it rounds beyond the largest double; a product that overflows
  is infinite, and \<^verbatim>\<open>int\<close> of an infinity raises OverflowError.
\<close>

definition int_times_float :: "int \<Rightarrow> double \<Rightarrow> py_exception + int" where
  "int_times_float i x =
     (if 2 ^ 1024 \<le> \<bar>float_of_int i\<bar> then Inl OverflowError
      else let p = fmul (float_of_int i) x in
        if 2 ^ 1024 \<le> \<bar>p\<bar> then Inl OverflowError else Inr (py_int p))"

text \<open>\<^verbatim>\<open>d.get(key, default)\<close>, the key's entry being \<open>None\<close> when the key is absent.\<close>

definition dict_get :: "'a option \<Rightarrow> 'a \<Rightarrow> 'a" where
  "dict_get entry dflt = (case entry of None \<Rightarrow> dflt | Some v \<Rightarrow> v)"

section \<open>Time\<close>

text \<open>
  A naive \<^verbatim>\<open>datetime\<close> is the number of microseconds since \<^verbatim>\<open>datetime.min\<close>
  (0001-01-01T00:00:00); \<^verbatim>\<open>datetime.max\<close> is the last microsecond of the year 9999, day
  3652059 of the proleptic Gregorian calendar. Every operation of the session manager is given
  the reading \<open>now\<close> of the clock (\<^verbatim>\<open>datetime.now()\<close>); the readings taken inside one call are
  modelled as one.
\<close>

type_synonym datetime = int

definition datetime_max :: datetime where
  "datetime_max = 3652059 * 86400000000 - 1"

text \<open>
  \<^verbatim>\<open>t + timedelta(days=n)\<close>: the timedelta constructor raises OverflowError beyond 999999999
  days, the addition when the date leaves the calendar.
\<close>

definition datetime_add_days :: "datetime \<Rightarrow> int \<Rightarrow> py_exception + datetime" where
  "datetime_add_days t n =
     (if 999999999 < \<bar>n\<bar> then Inl OverflowError
      else let t' = t + n * 86400000000 in
        if t' < 0 \<or> datetime_max < t' then Inl OverflowError else Inr t')"

text \<open>\<^verbatim>\<open>(t - s).total_seconds()\<close>: microseconds over \<open>10^6\<close>, as a float.\<close>

definition total_seconds :: "datetime \<Rightarrow> datetime \<Rightarrow> double" where
  "total_seconds t s = fdiv (of_int (t - s)) 1000000"

section \<open>SM-2 scheduler (services/spaced\_repetition.py, SM2Algorithm)\<close>

text \<open>
  The card dictionary that \<^verbatim>\<open>_get_due_cards\<close> builds and \<^verbatim>\<open>calculate_next_review\<close> reads. The
  keys read with \<^verbatim>\<open>.get\<close> or by subscript are optional entries (\<open>None\<close>: key absent);
  \<^verbatim>\<open>next_review\<close> is read by the sort key of \<^verbatim>\<open>_get_due_cards\<close>, which never stores it.
\<close>

record card_dict =
  cd_id :: "int option"
  cd_topic :: string
  cd_question :: string
  cd_answer :: string
  cd_category :: "string option"
  cd_difficulty :: "string option"
  cd_ease_factor :: "double option"
  cd_interval :: "int option"
  cd_repetition_count :: "int option"
  cd_review_count :: "int option"
  cd_is_ai_generated :: bool
  cd_next_review :: "datetime option"

record review_result =
  rr_card_id :: int
  rr_quality :: int
  rr_previous_interval :: int
  rr_new_interval :: int
  rr_previous_ease_factor :: double
  rr_new_ease_factor :: double
  rr_repetitions :: int
  rr_next_review :: datetime
  rr_review_count :: int

definition min_ease_factor :: double where
  "min_ease_factor = fl (13 / 10)"

definition max_ease_factor :: double where
  "max_ease_factor = fl 4"

definition default_ease_factor :: double where
  "default_ease_factor = fl (5 / 2)"

definition default_interval :: int where
  "default_interval = 1"

text \<open>
  \<^verbatim>\<open>_update_ease_factor\<close>. Its only caller passes a quality already brought into 0..4, so the
  conversion of \<^verbatim>\<open>5 - quality\<close> to a float is exact.
\<close>

definition update_ease_factor :: "double \<Rightarrow> int \<Rightarrow> double" where
  "update_ease_factor current_ease_factor quality =
     (let new_ease_factor =
            fadd current_ease_factor
              (fsub (fl (1 / 10))
                 (fmul (float_of_int (5 - quality))
                    (fadd (fl (8 / 100)) (fmul (float_of_int (5 - quality)) (fl (2 / 100))))));
          new_ease_factor = max min_ease_factor (min max_ease_factor new_ease_factor)
      in py_round new_ease_factor 2)"

text \<open>The increment that \<open>update_ease_factor\<close> adds to the ease factor, as a function of the quality.\<close>

definition ease_delta :: "int \<Rightarrow> double" where
  "ease_delta quality =
     fsub (fl (1 / 10))
       (fmul (float_of_int (5 - quality))
          (fadd (fl (8 / 100)) (fmul (float_of_int (5 - quality)) (fl (2 / 100)))))"

definition calculate_next_review ::
    "card_dict \<Rightarrow> int \<Rightarrow> datetime \<Rightarrow> py_exception + review_result" where
  "calculate_next_review card_data quality now =
     (let ease_factor = dict_get (cd_ease_factor card_data) default_ease_factor;
          interval = dict_get (cd_interval card_data) default_interval;
          repetitions = dict_get (cd_repetition_count card_data) 0;
          review_count = dict_get (cd_review_count card_data) 0;
          quality = (if quality < 0 \<or> quality > 4 then 0 else quality)
      in case (if quality < 3 then Inr (0, 1)
               else let repetitions = repetitions + 1 in
                 if repetitions = 1 then Inr (repetitions, 1)
                 else if repetitions = 2 then Inr (repetitions, 6)
                 else (case int_times_float interval ease_factor of
                         Inl e \<Rightarrow> Inl e
                       | Inr interval \<Rightarrow> Inr (repetitions, interval))) of
           Inl e \<Rightarrow> Inl e
         | Inr (repetitions, interval) \<Rightarrow>
             (let new_ease_factor = update_ease_factor ease_factor quality in
              case datetime_add_days now interval of
                Inl e \<Rightarrow> Inl e
              | Inr next_review \<Rightarrow>
                  Inr \<lparr>rr_card_id = dict_get (cd_id card_data) 0,
                       rr_quality = quality,
                       rr_previous_interval = dict_get (cd_interval card_data) 1,
                       rr_new_interval = interval,
                       rr_previous_ease_factor = ease_factor,
                       rr_new_ease_factor = new_ease_factor,
                       rr_repetitions = repetitions,
                       rr_next_review = next_review,
                       rr_review_count = review_count + 1\<rparr>))"

section \<open>The card store (models.Flashcard, db.session)\<close>

text \<open>
  A row of the \<^verbatim>\<open>flashcards\<close> table. The scheduling columns carry their declared defaults,
  so they are numbers; the two timestamps and the two free-text columns may be NULL.
\<close>

record flashcard =
  fc_id :: int
  fc_user_id :: int
  fc_topic :: string
  fc_question :: string
  fc_answer :: string
  fc_category :: "string option"
  fc_difficulty :: "string option"
  fc_last_reviewed :: "datetime option"
  fc_next_review :: "datetime option"
  fc_repetition_count :: int
  fc_review_count :: int
  fc_ease_factor :: double
  fc_interval :: int
  fc_is_ai_generated :: bool

text \<open>
  The store is a collaborator: its rows in query order, and whether its next query or its
  next commit raises an exception.
\<close>

record card_store =
  flashcards :: "flashcard list"
  query_raises :: bool
  commit_raises :: bool

text \<open>\<^verbatim>\<open>Flashcard.query.get(card_id)\<close>\<close>

definition query_get :: "card_store \<Rightarrow> int \<Rightarrow> flashcard option" where
  "query_get store card_id = find (\<lambda>fc. fc_id fc = card_id) (flashcards store)"

text \<open>
  \<^verbatim>\<open>_update_card_in_database\<close>: every exception is caught and logged, a missing card is logged,
  and the method returns \<^verbatim>\<open>None\<close> on every path; the model returns the store it leaves.
\<close>

definition update_card_in_database :: "review_result \<Rightarrow> datetime \<Rightarrow> card_store \<Rightarrow> card_store" where
  "update_card_in_database review_result now store =
     (if query_raises store then store
      else case query_get store (rr_card_id review_result) of
        None \<Rightarrow> store
      | Some fc \<Rightarrow>
          (let fc = fc\<lparr>fc_ease_factor := rr_new_ease_factor review_result,
                            fc_interval := rr_new_interval review_result,
                            fc_repetition_count := rr_repetitions review_result,
                            fc_review_count := rr_review_count review_result,
                            fc_last_reviewed := Some now,
                            fc_next_review := Some (rr_next_review review_result)\<rparr>
           in if commit_raises store then store
              else store\<lparr>flashcards :=
                     map (\<lambda>c. if fc_id c = fc_id fc then fc else c) (flashcards store)\<rparr>))"

section \<open>Review sessions (SpacedRepetitionManager)\<close>

text \<open>\<^verbatim>\<open>str(n)\<close> for an int, and the zero-padded fields of \<^verbatim>\<open>strftime\<close>.\<close>

definition digit_char :: "nat \<Rightarrow> char" where
  "digit_char d = ''0123456789'' ! d"

fun str_nat :: "nat \<Rightarrow> string" where
  "str_nat n = (if n < 10 then [digit_char n] else str_nat (n div 10) @ [digit_char (n mod 10)])"

declare str_nat.simps [simp del]

definition str_int :: "int \<Rightarrow> string" where
  "str_int i = (if i < 0 then CHR ''-'' # str_nat (nat (- i)) else str_nat (nat i))"

definition zero_pad :: "nat \<Rightarrow> string \<Rightarrow> string" where
  "zero_pad width s = replicate (width - length s) CHR ''0'' @ s"

text \<open>
  Year, month and day of the proleptic Gregorian calendar from the number of days since
  0001-01-01.
\<close>

definition civil_of_days :: "nat \<Rightarrow> nat \<times> nat \<times> nat" where
  "civil_of_days z =
     (let z = z + 306;
          era = z div 146097;
          doe = z mod 146097;
          yoe = (doe - doe div 1460 + doe div 36524 - doe div 146096) div 365;
          doy = doe - (365 * yoe + yoe div 4 - yoe div 100);
          mp = (5 * doy + 2) div 153;
          d = doy - (153 * mp + 2) div 5 + 1;
          m = (if mp < 10 then mp + 3 else mp - 9)
      in (yoe + era * 400 + (if m \<le> 2 then 1 else 0), m, d))"

text \<open>\<^verbatim>\<open>t.strftime('%Y%m%d_%H%M%S')\<close>\<close>

definition strftime_stamp :: "datetime \<Rightarrow> string" where
  "strftime_stamp t =
     (let secs = nat (t div 1000000);
          sod = secs mod 86400
      in case civil_of_days (secs div 86400) of (y, m, d) \<Rightarrow>
           zero_pad 4 (str_nat y) @ zero_pad 2 (str_nat m) @ zero_pad 2 (str_nat d) @ ''_''
           @ zero_pad 2 (str_nat (sod div 3600)) @ zero_pad 2 (str_nat (sod mod 3600 div 60))
           @ zero_pad 2 (str_nat (sod mod 60)))"

text \<open>An entry of \<^verbatim>\<open>session["reviewed_cards"]\<close>.\<close>

record review_entry =
  re_card_id :: int
  re_quality :: int
  re_review_time :: datetime
  re_new_interval :: int
  re_new_ease_factor :: double

text \<open>
  A session dictionary. \<^verbatim>\<open>current_card_index\<close> starts at 0 and is only ever incremented, so
  it is a natural number.
\<close>

record session =
  s_session_id :: string
  s_user_id :: int
  s_start_time :: datetime
  s_cards :: "card_dict list"
  s_current_card_index :: nat
  s_reviewed_cards :: "review_entry list"
  s_category :: "string option"
  s_max_cards :: int

text \<open>\<^verbatim>\<open>self.review_sessions\<close>: a dictionary, in insertion order.\<close>

type_synonym registry = "(string \<times> session) list"

text \<open>
  The \<^verbatim>\<open>"error"\<close> entry of a failed operation: the two messages of the manager, or the text
  of an exception caught by \<^verbatim>\<open>review_card\<close>.
\<close>

datatype error_message =
    Session_not_found
  | No_more_cards_in_session
  | Exception_text py_exception

text \<open>\<^verbatim>\<open>_is_card_due\<close>\<close>

definition is_card_due :: "flashcard \<Rightarrow> datetime \<Rightarrow> bool" where
  "is_card_due fc now =
     (case fc_next_review fc of None \<Rightarrow> True | Some next_review \<Rightarrow> next_review \<le> now)"

text \<open>The dictionary \<^verbatim>\<open>_get_due_cards\<close> appends for a due card.\<close>

definition card_dict_of :: "flashcard \<Rightarrow> card_dict" where
  "card_dict_of fc =
     \<lparr>cd_id = Some (fc_id fc), cd_topic = fc_topic fc, cd_question = fc_question fc,
      cd_answer = fc_answer fc, cd_category = fc_category fc,
      cd_difficulty = fc_difficulty fc, cd_ease_factor = Some (fc_ease_factor fc),
      cd_interval = Some (fc_interval fc),
      cd_repetition_count = Some (fc_repetition_count fc),
      cd_review_count = Some (fc_review_count fc),
      cd_is_ai_generated = fc_is_ai_generated fc, cd_next_review = None\<rparr>"

text \<open>\<^verbatim>\<open>xs[:n]\<close>: a negative \<open>n\<close> counts from the end.\<close>

definition slice_to :: "int \<Rightarrow> 'a list \<Rightarrow> 'a list" where
  "slice_to n xs = (if 0 \<le> n then take (nat n) xs else take (length xs - nat (- n)) xs)"

text \<open>
  \<^verbatim>\<open>query.filter_by(user_id=user_id)\<close>, and \<^verbatim>\<open>.filter_by(category=category)\<close> when the category
  is neither \<^verbatim>\<open>None\<close> nor empty.
\<close>

definition query_cards :: "card_store \<Rightarrow> int \<Rightarrow> string option \<Rightarrow> flashcard list" where
  "query_cards store user_id category =
     (let rows = filter (\<lambda>fc. fc_user_id fc = user_id) (flashcards store)
      in case category of
           None \<Rightarrow> rows
         | Some c \<Rightarrow> if c = [] then rows else filter (\<lambda>fc. fc_category fc = Some c) rows)"

text \<open>
  \<^verbatim>\<open>_get_due_cards\<close>. The list sort is stable and the key is the pair
  \<^verbatim>\<open>(x.get('next_review', datetime.min) < datetime.now(), x.get('ease_factor', 2.5))\<close>, ordered
  lexicographically with \<open>False < True\<close>; \<^verbatim>\<open>datetime.min\<close> is 0. An exception of the query is
  caught and the empty list returned.
\<close>

definition get_due_cards ::
    "int \<Rightarrow> string option \<Rightarrow> int \<Rightarrow> datetime \<Rightarrow> card_store \<Rightarrow> card_dict list" where
  "get_due_cards user_id category max_cards now store =
     (if query_raises store then []
      else let all_cards = query_cards store user_id category;
               due_cards = map card_dict_of (filter (\<lambda>fc. is_card_due fc now) all_cards);
               due_cards = sort_key (\<lambda>x. (dict_get (cd_next_review x) 0 < now,
                                           dict_get (cd_ease_factor x) (fl (5 / 2)))) due_cards
           in slice_to max_cards due_cards)"

datatype start_response =
    No_cards_due string "card_dict list" nat
  | Session_started string "card_dict list" nat nat "string option"

text \<open>
  \<^verbatim>\<open>start_review_session\<close>. \<open>No_cards_due session_id cards total_due\<close> is the dictionary
  with the message "No cards due for review right now!", \<open>Session_started session_id cards
  total_cards current_card category\<close> the other one. \<^verbatim>\<open>_get_due_cards\<close> catches its own
  exceptions, so the handler of this method is not reached.
\<close>

definition start_review_session ::
    "int \<Rightarrow> string option \<Rightarrow> int \<Rightarrow> datetime \<Rightarrow> registry \<times> card_store
       \<Rightarrow> start_response \<times> registry" where
  "start_review_session user_id category max_cards now state =
     (case state of (review_sessions, store) \<Rightarrow>
      let session_id = ''session_'' @ str_int user_id @ ''_'' @ strftime_stamp now;
          due_cards = get_due_cards user_id category max_cards now store
      in if due_cards = [] then (No_cards_due session_id [] 0, review_sessions)
         else let session_data =
                    \<lparr>s_session_id = session_id, s_user_id = user_id, s_start_time = now,
                     s_cards = due_cards, s_current_card_index = 0, s_reviewed_cards = [],
                     s_category = category, s_max_cards = max_cards\<rparr>
              in (Session_started session_id due_cards (length due_cards) 0 category,
                  AList.update session_id session_data review_sessions))"

record session_summary =
  sm_session_id :: string
  sm_total_cards_reviewed :: nat
  sm_average_quality :: double
  sm_duration_minutes :: double
  sm_category :: "string option"
  sm_start_time :: datetime
  sm_end_time :: datetime
  sm_again :: nat
  sm_hard :: nat
  sm_good :: nat
  sm_easy :: nat
  sm_perfect :: nat

text \<open>
  \<^verbatim>\<open>sum(quality_scores) / total_cards\<close>: true division of ints raises OverflowError when the
  quotient is too large for a float.
\<close>

definition int_true_divide :: "int \<Rightarrow> int \<Rightarrow> py_exception + double" where
  "int_true_divide a b =
     (if b = 0 then Inl ZeroDivisionError
      else let r = fdiv (of_int a) (of_int b) in
        if 2 ^ 1024 \<le> \<bar>r\<bar> then Inl OverflowError else Inr r)"

text \<open>
  \<^verbatim>\<open>_complete_session\<close>: the statistics are computed first, then the session is deleted from
  the registry, then the summary is built.
\<close>

definition complete_session ::
    "string \<Rightarrow> datetime \<Rightarrow> registry \<Rightarrow> py_exception + session_summary \<times> registry" where
  "complete_session session_id now review_sessions =
     (case map_of review_sessions session_id of
        None \<Rightarrow> Inl KeyError
      | Some session \<Rightarrow>
          (let total_cards = length (s_reviewed_cards session);
               quality_scores = map re_quality (s_reviewed_cards session)
           in case (if total_cards > 0
                    then int_true_divide (sum_list quality_scores) (int total_cards)
                    else Inr 0) of
                Inl e \<Rightarrow> Inl e
              | Inr avg_quality \<Rightarrow>
                  (let duration_minutes = fdiv (total_seconds now (s_start_time session)) 60
                   in Inr (\<lparr>sm_session_id = session_id,
                             sm_total_cards_reviewed = total_cards,
                             sm_average_quality = py_round avg_quality 2,
                             sm_duration_minutes = py_round duration_minutes 1,
                             sm_category = s_category session,
                             sm_start_time = s_start_time session,
                             sm_end_time = now,
                             sm_again = count_list quality_scores 0,
                             sm_hard = count_list quality_scores 1,
                             sm_good = count_list quality_scores 2,
                             sm_easy = count_list quality_scores 3,
                             sm_perfect = count_list quality_scores 4\<rparr>,
                           AList.delete session_id review_sessions))))"

record continue_info =
  ci_current_card :: card_dict
  ci_completed :: nat
  ci_total :: nat
  ci_remaining :: int
  ci_quality :: int
  ci_new_interval :: int
  ci_new_ease_factor :: double
  ci_next_review :: datetime

datatype review_response =
    Review_error error_message
  | Continue continue_info
  | Completed session_summary

text \<open>
  \<^verbatim>\<open>review_card\<close>. The session dictionary is mutated in place, which is an update of its entry
  in the registry. An exception raised in the \<^verbatim>\<open>try\<close> block leaves what was mutated before it
  and is returned as an error.
\<close>

definition review_card ::
    "string \<Rightarrow> int \<Rightarrow> datetime \<Rightarrow> registry \<times> card_store
       \<Rightarrow> review_response \<times> registry \<times> card_store" where
  "review_card session_id quality now state =
     (case state of (review_sessions, store) \<Rightarrow>
      case map_of review_sessions session_id of
        None \<Rightarrow> (Review_error Session_not_found, review_sessions, store)
      | Some session \<Rightarrow>
          if s_current_card_index session \<ge> length (s_cards session)
          then (Review_error No_more_cards_in_session, review_sessions, store)
          else
            (let current_card = s_cards session ! s_current_card_index session in
             case calculate_next_review current_card quality now of
               Inl e \<Rightarrow> (Review_error (Exception_text e), review_sessions, store)
             | Inr review_result \<Rightarrow>
                 (let store = update_card_in_database review_result now store in
                  case cd_id current_card of
                    None \<Rightarrow> (Review_error (Exception_text KeyError), review_sessions, store)
                  | Some card_id \<Rightarrow>
                      (let session = session
                             \<lparr>s_reviewed_cards := s_reviewed_cards session @
                                [\<lparr>re_card_id = card_id, re_quality = quality,
                                  re_review_time = now,
                                  re_new_interval = rr_new_interval review_result,
                                  re_new_ease_factor = rr_new_ease_factor review_result\<rparr>],
                              s_current_card_index := s_current_card_index session + 1\<rparr>;
                           review_sessions = AList.update session_id session review_sessions
                       in if s_current_card_index session \<ge> length (s_cards session)
                          then (case complete_session session_id now review_sessions of
                                  Inl e \<Rightarrow> (Review_error (Exception_text e), review_sessions, store)
                                | Inr (summary, review_sessions) \<Rightarrow>
                                    (Completed summary, review_sessions, store))
                          else (Continue
                                  \<lparr>ci_current_card = s_cards session ! s_current_card_index session,
                                   ci_completed = s_current_card_index session,
                                   ci_total = length (s_cards session),
                                   ci_remaining = int (length (s_cards session))
                                                  - int (s_current_card_index session),
                                   ci_quality = quality,
                                   ci_new_interval = rr_new_interval review_result,
                                   ci_new_ease_factor = rr_new_ease_factor review_result,
                                   ci_next_review = rr_next_review review_result\<rparr>,
                                review_sessions, store)))))"

record progress_info =
  pi_session_id :: string
  pi_completed :: nat
  pi_total :: nat
  pi_remaining :: int
  pi_start_time :: datetime
  pi_duration_minutes :: double
  pi_category :: "string option"

datatype progress_response =
    Progress_error error_message
  | Progress progress_info

text \<open>\<^verbatim>\<open>get_session_progress\<close>; it changes nothing.\<close>

definition get_session_progress :: "string \<Rightarrow> datetime \<Rightarrow> registry \<Rightarrow> progress_response" where
  "get_session_progress session_id now review_sessions =
     (case map_of review_sessions session_id of
        None \<Rightarrow> Progress_error Session_not_found
      | Some session \<Rightarrow>
          Progress
            \<lparr>pi_session_id = session_id,
             pi_completed = s_current_card_index session,
             pi_total = length (s_cards session),
             pi_remaining = int (length (s_cards session)) - int (s_current_card_index session),
             pi_start_time = s_start_time session,
             pi_duration_minutes = fdiv (total_seconds now (s_start_time session)) 60,
             pi_category = s_category session\<rparr>)"

text \<open>\<^verbatim>\<open>cleanup_expired_sessions\<close> returns the number of sessions it deleted.\<close>

definition cleanup_expired_sessions :: "datetime \<Rightarrow> registry \<Rightarrow> nat \<times> registry" where
  "cleanup_expired_sessions now review_sessions =
     (let current_time = now;
          expired_sessions =
            map fst (filter (\<lambda>(session_id, session).
                       total_seconds current_time (s_start_time session) > 7200) review_sessions)
      in (length expired_sessions, fold AList.delete expired_sessions review_sessions))"

text \<open>A caller that makes one \<^verbatim>\<open>review_card\<close> call after the other on the same session.\<close>

fun review_cards ::
    "string \<Rightarrow> (int \<times> datetime) list \<Rightarrow> registry \<times> card_store
       \<Rightarrow> review_response list \<times> registry \<times> card_store" where
  "review_cards session_id [] state = ([], state)"
| "review_cards session_id ((quality, now) # calls) state =
     (case review_card session_id quality now state of
        (response, state') \<Rightarrow>
          (case review_cards session_id calls state' of
             (responses, state'') \<Rightarrow> (response # responses, state'')))"

section \<open>Study group matcher (services/study\_group\_matcher.py)\<close>

text \<open>
  The fields of the two profiles that the scoring reads. \<^verbatim>\<open>coding_hours_per_week\<close> is declared
  an int and computed as a float; an int is converted exactly when it is divided by a float.
\<close>

record user_profile =
  up_user_id :: int
  up_skill_level :: string
  up_interests :: "string list"
  up_coding_hours_per_week :: double
  up_preferred_schedule :: string

record study_group_profile =
  gp_group_id :: int
  gp_name :: string
  gp_topic :: string
  gp_skill_level :: string
  gp_current_size :: int
  gp_max_size :: int
  gp_activity_level :: double
  gp_member_skill_distribution :: "(string \<times> int) list"
  gp_average_coding_hours :: double
  gp_preferred_schedule :: string

text \<open>\<^verbatim>\<open>str.lower()\<close> on ASCII text, and \<^verbatim>\<open>xs.index(x)\<close>, which raises ValueError.\<close>

definition lower_char :: "char \<Rightarrow> char" where
  "lower_char c =
     (case map_of (zip ''ABCDEFGHIJKLMNOPQRSTUVWXYZ'' ''abcdefghijklmnopqrstuvwxyz'') c of
        None \<Rightarrow> c | Some l \<Rightarrow> l)"

definition lower :: "string \<Rightarrow> string" where
  "lower s = map lower_char s"

fun list_index :: "'a list \<Rightarrow> 'a \<Rightarrow> py_exception + int" where
  "list_index [] x = Inl ValueError"
| "list_index (y # ys) x =
     (if y = x then Inr 0
      else case list_index ys x of Inl e \<Rightarrow> Inl e | Inr i \<Rightarrow> Inr (i + 1))"

definition topic_similarity_matrix :: "(string \<times> string list) list" where
  "topic_similarity_matrix =
     [(''algorithms'', [''data_structures'', ''problem_solving'', ''competitive_programming'']),
      (''data_structures'', [''algorithms'', ''problem_solving'', ''interview_prep'']),
      (''system_design'', [''architecture'', ''scalability'', ''distributed_systems'']),
      (''web_development'', [''frontend'', ''backend'', ''full_stack'']),
      (''mobile_development'', [''ios'', ''android'', ''react_native'']),
      (''machine_learning'', [''ai'', ''data_science'', ''deep_learning'']),
      (''competitive_programming'', [''algorithms'', ''data_structures'', ''problem_solving'']),
      (''interview_preparation'', [''algorithms'', ''data_structures'', ''system_design''])]"

text \<open>\<^verbatim>\<open>_calculate_skill_compatibility\<close>\<close>

definition calculate_skill_compatibility ::
    "string \<Rightarrow> string \<Rightarrow> (string \<times> int) list \<Rightarrow> py_exception + double" where
  "calculate_skill_compatibility user_skill group_skill member_distribution =
     (if user_skill = group_skill then Inr 1
      else let skill_levels = [''beginner'', ''intermediate'', ''advanced''] in
        case list_index skill_levels user_skill of
          Inl e \<Rightarrow> Inl e
        | Inr user_index \<Rightarrow>
            (case list_index skill_levels group_skill of
               Inl e \<Rightarrow> Inl e
             | Inr group_index \<Rightarrow>
                 if \<bar>user_index - group_index\<bar> = 1 then Inr (fl (7 / 10))
                 else if \<bar>user_index - group_index\<bar> = 2 then Inr (fl (3 / 10))
                 else
                   (let total_members = sum_list (map snd member_distribution) in
                    if total_members > 0 then
                      (case int_true_divide (dict_get (map_of member_distribution user_skill) 0)
                              total_members of
                         Inl e \<Rightarrow> Inl e
                       | Inr user_skill_ratio \<Rightarrow>
                           if user_skill_ratio < fl (1 / 2)
                           then Inr (min 1 (fadd (fl (8 / 10))
                                              (fmul (fl (2 / 10)) (fsub 1 user_skill_ratio))))
                           else Inr (fl (1 / 2)))
                    else Inr (fl (1 / 2)))))"

text \<open>\<^verbatim>\<open>_calculate_interest_compatibility\<close>; \<^verbatim>\<open>a in b\<close> on strings is the substring test.\<close>

definition calculate_interest_compatibility :: "string list \<Rightarrow> string \<Rightarrow> double" where
  "calculate_interest_compatibility user_interests group_topic =
     (if user_interests = [] then fl (1 / 2)
      else if lower group_topic \<in> set (map lower user_interests) then 1
      else let related_topics = dict_get (map_of topic_similarity_matrix (lower group_topic)) [] in
        if list_ex (\<lambda>interest. list_ex (\<lambda>related. sublist related (lower interest))
                                   related_topics) user_interests
        then fl (8 / 10)
        else if list_ex (\<lambda>interest. sublist (lower group_topic) (lower interest)
                                    \<or> sublist (lower interest) (lower group_topic)) user_interests
        then fl (6 / 10)
        else fl (3 / 10))"

definition schedule_groups :: "(string \<times> string list) list" where
  "schedule_groups =
     [(''morning'', [''morning'', ''early_morning'']),
      (''afternoon'', [''afternoon'', ''lunch_time'']),
      (''evening'', [''evening'', ''night'']),
      (''weekend'', [''weekend'', ''saturday'', ''sunday''])]"

text \<open>\<^verbatim>\<open>_calculate_schedule_compatibility\<close>\<close>

definition calculate_schedule_compatibility :: "string \<Rightarrow> string \<Rightarrow> double" where
  "calculate_schedule_compatibility user_schedule group_schedule =
     (if user_schedule = ''flexible'' \<or> group_schedule = ''flexible'' then fl (8 / 10)
      else if user_schedule = group_schedule then 1
      else if list_ex (\<lambda>(group, schedules).
                 user_schedule \<in> set schedules \<and> group_schedule \<in> set schedules) schedule_groups
      then fl (7 / 10)
      else fl (4 / 10))"

text \<open>\<^verbatim>\<open>_calculate_activity_compatibility\<close>\<close>

definition calculate_activity_compatibility :: "double \<Rightarrow> double \<Rightarrow> double" where
  "calculate_activity_compatibility user_hours group_avg_hours =
     (if group_avg_hours = 0 then fl (1 / 2)
      else let ratio = fdiv user_hours group_avg_hours in
        if fl (7 / 10) \<le> ratio \<and> ratio \<le> fl (15 / 10) then 1
        else if fl (5 / 10) \<le> ratio \<and> ratio \<le> 2 then fl (8 / 10)
        else if fl (3 / 10) \<le> ratio \<and> ratio \<le> 3 then fl (6 / 10)
        else fl (3 / 10))"

text \<open>\<^verbatim>\<open>_calculate_size_compatibility\<close>; the division raises when \<^verbatim>\<open>max_size\<close> is 0.\<close>

definition calculate_size_compatibility :: "int \<Rightarrow> int \<Rightarrow> py_exception + double" where
  "calculate_size_compatibility current_size max_size =
     (case int_true_divide current_size max_size of
        Inl e \<Rightarrow> Inl e
      | Inr fill_ratio \<Rightarrow>
          if fl (3 / 10) \<le> fill_ratio \<and> fill_ratio \<le> fl (7 / 10) then Inr 1
          else if fl (2 / 10) \<le> fill_ratio \<and> fill_ratio \<le> fl (8 / 10) then Inr (fl (8 / 10))
          else if fl (1 / 10) \<le> fill_ratio \<and> fill_ratio \<le> fl (9 / 10) then Inr (fl (6 / 10))
          else Inr (fl (3 / 10)))"

text \<open>
  \<^verbatim>\<open>_calculate_compatibility\<close>: \<^verbatim>\<open>sum\<close> adds the weighted scores from the left, starting at 0,
  and any exception makes the score 0.0.
\<close>

definition calculate_compatibility :: "user_profile \<Rightarrow> study_group_profile \<Rightarrow> double" where
  "calculate_compatibility user_profile group_profile =
     (case calculate_skill_compatibility (up_skill_level user_profile)
             (gp_skill_level group_profile) (gp_member_skill_distribution group_profile) of
        Inl e \<Rightarrow> 0
      | Inr skill_score \<Rightarrow>
          (let interest_score = calculate_interest_compatibility
                 (up_interests user_profile) (gp_topic group_profile);
               schedule_score = calculate_schedule_compatibility
                 (up_preferred_schedule user_profile) (gp_preferred_schedule group_profile);
               activity_score = calculate_activity_compatibility
                 (up_coding_hours_per_week user_profile) (gp_average_coding_hours group_profile)
           in case calculate_size_compatibility
                     (gp_current_size group_profile) (gp_max_size group_profile) of
                Inl e \<Rightarrow> 0
              | Inr size_score \<Rightarrow>
                  (let scores = [(''skill_level'', skill_score, fl (4 / 10)),
                                 (''interests'', interest_score, fl (25 / 100)),
                                 (''schedule'', schedule_score, fl (15 / 100)),
                                 (''activity'', activity_score, fl (1 / 10)),
                                 (''size'', size_score, fl (1 / 10))];
                       total_score = foldl (\<lambda>acc (name, score, weight). fadd acc (fmul score weight))
                                       0 scores
                   in min 1 (max 0 total_score))))"

section \<open>The ordering policy of the specification\<close>

text \<open>
  The policy of the specification for the cards selected at session start, in its words: cards
  whose due date is in the past (before the clock reading) or absent come before the others,
  then the ease factor ascends, and the ordered list is truncated to the maximum number of
  cards.
\<close>

definition spec_overdue :: "flashcard \<Rightarrow> datetime \<Rightarrow> bool" where
  "spec_overdue fc now = (case fc_next_review fc of None \<Rightarrow> True | Some due \<Rightarrow> due < now)"

definition spec_ordered_cards :: "flashcard list \<Rightarrow> datetime \<Rightarrow> nat \<Rightarrow> flashcard list" where
  "spec_ordered_cards selected now max_cards =
     take max_cards (sort_key (\<lambda>fc. (\<not> spec_overdue fc now, fc_ease_factor fc)) selected)"

section \<open>Example data\<close>

text \<open>
  A clock reading (2026-11-03 09:15:27.25) and two flashcards of user 7: a new card, and a
  card reviewed twice that fell due a day before the reading.
\<close>

definition now0 :: datetime where "now0 = 63929294127250000"

definition fc1 :: flashcard where
  "fc1 = \<lparr>fc_id = 1, fc_user_id = 7, fc_topic = ''arrays'', fc_question = ''q1'', fc_answer = ''a1'',
     fc_category = Some ''algorithms'', fc_difficulty = Some ''easy'', fc_last_reviewed = None,
     fc_next_review = None, fc_repetition_count = 0, fc_review_count = 0, fc_ease_factor = 5 / 2,
     fc_interval = 1, fc_is_ai_generated = False\<rparr>"

definition fc2 :: flashcard where
  "fc2 = \<lparr>fc_id = 2, fc_user_id = 7, fc_topic = ''graphs'', fc_question = ''q2'', fc_answer = ''a2'',
     fc_category = Some ''algorithms'', fc_difficulty = None,
     fc_last_reviewed = Some 63928689327250000,
     fc_next_review = Some 63929207727250000, fc_repetition_count = 2, fc_review_count = 2,
     fc_ease_factor = 2, fc_interval = 6, fc_is_ai_generated = False\<rparr>"

definition store0 :: card_store where
  "store0 = \<lparr>flashcards = [fc1, fc2], query_raises = False, commit_raises = False\<rparr>"

text \<open>The same store when its commits are rejected.\<close>

definition failing_store :: card_store where
  "failing_store = store0\<lparr>commit_raises := True\<rparr>"

text \<open>
  The session that \<open>start_review_session 7 None 20 now0\<close> creates on \<open>store0\<close>, and later
  clock readings: one minute, two minutes and three hours after \<open>now0\<close>, and half a second
  after it.
\<close>

definition sid0 :: string where
  "sid0 = ''session_7_20261103_091527''"

definition session0 :: session where
  "session0 = \<lparr>s_session_id = sid0, s_user_id = 7, s_start_time = now0,
     s_cards = [card_dict_of fc2, card_dict_of fc1], s_current_card_index = 0,
     s_reviewed_cards = [], s_category = None, s_max_cards = 20\<rparr>"

definition registry0 :: registry where
  "registry0 = [(sid0, session0)]"

definition now1 :: datetime where "now1 = 63929294187250000"

definition now2 :: datetime where "now2 = 63929294247250000"

definition now3 :: datetime where "now3 = 63929304927250000"

definition now_half :: datetime where "now_half = 63929294127750000"

text \<open>
  Two more flashcards of user 7, in a store of their own: a new card, and an easier-to-forget
  card that falls due exactly at the clock reading \<open>now0\<close>.
\<close>

definition fc_absent :: flashcard where
  "fc_absent = \<lparr>fc_id = 12, fc_user_id = 7, fc_topic = ''heaps'', fc_question = ''q12'',
     fc_answer = ''a12'', fc_category = None, fc_difficulty = None, fc_last_reviewed = None,
     fc_next_review = None, fc_repetition_count = 0, fc_review_count = 0, fc_ease_factor = 5 / 2,
     fc_interval = 1, fc_is_ai_generated = False\<rparr>"

definition fc_due_now :: flashcard where
  "fc_due_now = \<lparr>fc_id = 11, fc_user_id = 7, fc_topic = ''tries'', fc_question = ''q11'',
     fc_answer = ''a11'', fc_category = None, fc_difficulty = None,
     fc_last_reviewed = Some 63929207727250000,
     fc_next_review = Some 63929294127250000, fc_repetition_count = 1, fc_review_count = 3,
     fc_ease_factor = 3 / 2, fc_interval = 1, fc_is_ai_generated = False\<rparr>"

definition boundary_store :: card_store where
  "boundary_store = \<lparr>flashcards = [fc_absent, fc_due_now], query_raises = False,
     commit_raises = False\<rparr>"

section \<open>Properties of the rounding\<close>

lemma expo_bounds: "0 < x \<Longrightarrow> 2 powi (expo x) \<le> x \<and> x < 2 powi (expo x + 1)"
proof (induction x rule: expo.induct)
  case (1 x)
  show ?case
  proof (cases "x < 1")
    case True
    then have e: "expo x = expo (2 * x) - 1" using 1(3) by (subst expo.simps) simp
    have ih: "2 powi (expo (2 * x)) \<le> 2 * x \<and> 2 * x < 2 powi (expo (2 * x) + 1)"
      using 1(1) 1(3) True by simp
    show ?thesis using ih unfolding e by (simp add: power_int_diff power_int_add)
  next
    case False
    show ?thesis
    proof (cases "2 \<le> x")
      case True
      then have e: "expo x = expo (x / 2) + 1" using 1(3) False by (subst expo.simps) simp
      have ih: "2 powi (expo (x / 2)) \<le> x / 2 \<and> x / 2 < 2 powi (expo (x / 2) + 1)"
        using 1(2) 1(3) False True by simp
      show ?thesis using ih unfolding e by (simp add: power_int_diff power_int_add)
    next
      case b: False
      then have e: "expo x = 0" using 1(3) False by (subst expo.simps) simp
      show ?thesis using False b unfolding e by simp
    qed
  qed
qed

lemma rne_bounds: "\<lfloor>x\<rfloor> \<le> rne x \<and> rne x \<le> \<lfloor>x\<rfloor> + 1"
  by (simp add: rne_def Let_def)

lemma rne_of_int: "rne (of_int n) = n"
  by (simp add: rne_def)

lemma rne_mono: assumes "x \<le> y" shows "rne x \<le> rne y"
proof (cases "\<lfloor>x\<rfloor> = \<lfloor>y\<rfloor>")
  case True
  then show ?thesis using assms by (auto simp: rne_def Let_def)
next
  case False
  then have "\<lfloor>x\<rfloor> < \<lfloor>y\<rfloor>" using floor_mono [OF assms] by simp
  then show ?thesis using rne_bounds [of x] rne_bounds [of y] by linarith
qed

lemma fl_pos_eq:
  "0 < x \<Longrightarrow> fl x = of_int (rne (x / 2 powi (expo x - 52))) * 2 powi (expo x - 52)"
  by (simp add: fl_def Let_def)

lemma fl_lower: assumes "0 < x" shows "2 powi (expo x) \<le> fl x"
proof -
  let ?u = "2 powi (expo x - 52) :: rat"
  have u: "0 < ?u" by simp
  have "2 powi (expo x) \<le> x" using expo_bounds [OF assms] by simp
  then have "2 powi (expo x) / ?u \<le> x / ?u" using u by (simp add: divide_right_mono)
  moreover have "2 powi (expo x) / ?u = (of_int (2 ^ 52) :: rat)"
    by (simp add: power_int_diff)
  ultimately have "(of_int (2 ^ 52) :: rat) \<le> x / ?u" by simp
  then have "rne (of_int (2 ^ 52)) \<le> rne (x / ?u)" by (rule rne_mono)
  then have "(2 ^ 52 :: int) \<le> rne (x / ?u)" by (simp only: rne_of_int)
  then have "(of_int (2 ^ 52) :: rat) \<le> of_int (rne (x / ?u))" by (simp only: of_int_le_iff)
  then have "of_int (2 ^ 52) * ?u \<le> of_int (rne (x / ?u)) * ?u"
    using u by (simp only: mult_le_cancel_right_pos)
  moreover have "of_int (2 ^ 52) * ?u = (2 powi (expo x) :: rat)"
    by (simp add: power_int_diff)
  ultimately show ?thesis using assms by (simp only: fl_pos_eq)
qed

lemma fl_upper: assumes "0 < x" shows "fl x \<le> 2 powi (expo x + 1)"
proof -
  let ?u = "2 powi (expo x - 52) :: rat"
  have u: "0 < ?u" by simp
  have "x \<le> 2 powi (expo x + 1)" using expo_bounds [OF assms] by simp
  then have "x / ?u \<le> 2 powi (expo x + 1) / ?u" using u by (simp add: divide_right_mono)
  moreover have "2 powi (expo x + 1) / ?u = (of_int (2 ^ 53) :: rat)"
    by (simp add: power_int_diff power_int_add)
  ultimately have "x / ?u \<le> (of_int (2 ^ 53) :: rat)" by simp
  then have "rne (x / ?u) \<le> rne (of_int (2 ^ 53))" by (rule rne_mono)
  then have "rne (x / ?u) \<le> (2 ^ 53 :: int)" by (simp only: rne_of_int)
  then have "of_int (rne (x / ?u)) \<le> (of_int (2 ^ 53) :: rat)" by (simp only: of_int_le_iff)
  then have "of_int (rne (x / ?u)) * ?u \<le> of_int (2 ^ 53) * ?u"
    using u by (simp only: mult_le_cancel_right_pos)
  moreover have "of_int (2 ^ 53) * ?u = (2 powi (expo x + 1) :: rat)"
    by (simp add: power_int_diff power_int_add)
  ultimately show ?thesis using assms by (simp only: fl_pos_eq)
qed

lemma fl_mono_pos: assumes "0 < x" "x \<le> y" shows "fl x \<le> fl y"
proof -
  have y: "0 < y" using assms by simp
  have "(2::rat) powi (expo x) < 2 powi (expo y + 1)"
    using expo_bounds [OF assms(1)] expo_bounds [OF y] assms(2) by linarith
  then have "\<not> expo y + 1 \<le> expo x"
    using power_int_increasing [of "expo y + 1" "expo x" "2::rat"] by auto
  then have le: "expo x \<le> expo y" by simp
  show ?thesis
  proof (cases "expo x = expo y")
    case True
    let ?u = "2 powi (expo y - 52) :: rat"
    have u: "0 < ?u" by simp
    have "x / ?u \<le> y / ?u" using assms(2) u by (simp add: divide_right_mono)
    then have "rne (x / ?u) \<le> rne (y / ?u)" by (rule rne_mono)
    then have "of_int (rne (x / ?u)) * ?u \<le> of_int (rne (y / ?u)) * ?u"
      using u by simp
    then show ?thesis using assms(1) y True by (simp only: fl_pos_eq)
  next
    case False
    then have "expo x + 1 \<le> expo y" using le by simp
    then have "(2::rat) powi (expo x + 1) \<le> 2 powi (expo y)"
      by (intro power_int_increasing) simp_all
    then show ?thesis using fl_upper [OF assms(1)] fl_lower [OF y] by linarith
  qed
qed

lemma fl_zero: "fl 0 = 0"
  by (simp add: fl_def)

lemma fl_minus: "fl (- x) = - fl x"
  by (simp add: fl_def Let_def)

lemma fl_pos: assumes "0 < x" shows "0 < fl x"
proof -
  have "(0::rat) < 2 powi (expo x)" by simp
  then show ?thesis using fl_lower [OF assms] by linarith
qed

lemma fl_mono: assumes "x \<le> y" shows "fl x \<le> fl y"
proof -
  consider "0 < x" | "x = 0" "y = 0" | "x = 0" "0 < y"
    | "x < 0" "y < 0" | "x < 0" "y = 0" | "x < 0" "0 < y"
    using assms by linarith
  then show ?thesis
  proof cases
    case 1 then show ?thesis using assms by (rule fl_mono_pos)
  next
    case 2 then show ?thesis by simp
  next
    case 3 then show ?thesis using fl_pos [of y] by (simp add: fl_zero)
  next
    case 4
    then have "fl (- y) \<le> fl (- x)" using assms by (intro fl_mono_pos) simp_all
    then show ?thesis by (simp add: fl_minus)
  next
    case 5
    then show ?thesis using fl_pos [of "- x"] by (simp add: fl_zero fl_minus)
  next
    case 6
    then show ?thesis using fl_pos [of "- x"] fl_pos [of y] by (simp add: fl_minus)
  qed
qed

lemma py_round_mono: assumes "x \<le> y" shows "py_round x n \<le> py_round y n"
proof -
  have "x * 10 ^ n \<le> y * 10 ^ n" using assms by simp
  then have "rne (x * 10 ^ n) \<le> rne (y * 10 ^ n)" by (rule rne_mono)
  then have "(of_int (rne (x * 10 ^ n)) :: rat) / 10 ^ n \<le> of_int (rne (y * 10 ^ n)) / 10 ^ n"
    by (simp add: divide_right_mono)
  then show ?thesis unfolding py_round_def by (rule fl_mono)
qed

section \<open>Evaluation on concrete numbers\<close>

lemma floor_rat_numeral [simp]:
  "\<lfloor>numeral a / numeral b :: rat\<rfloor> = numeral a div numeral b"
  "\<lfloor>- (numeral a / numeral b) :: rat\<rfloor> = - numeral a div numeral b"
  "\<lfloor>1 / numeral b :: rat\<rfloor> = 1 div numeral b"
  "\<lfloor>- (1 / numeral b) :: rat\<rfloor> = - 1 div numeral b"
proof -
  show "\<lfloor>numeral a / numeral b :: rat\<rfloor> = numeral a div numeral b"
    using floor_divide_of_int_eq [of "numeral a" "numeral b", where ?'a = rat] by simp
  show "\<lfloor>- (numeral a / numeral b) :: rat\<rfloor> = - numeral a div numeral b"
    using floor_divide_of_int_eq [of "- numeral a" "numeral b", where ?'a = rat] by simp
  show "\<lfloor>1 / numeral b :: rat\<rfloor> = 1 div numeral b"
    using floor_divide_of_int_eq [of 1 "numeral b", where ?'a = rat] by simp
  show "\<lfloor>- (1 / numeral b) :: rat\<rfloor> = - 1 div numeral b"
    using floor_divide_of_int_eq [of "- 1" "numeral b", where ?'a = rat] by simp
qed

lemma pow2_eval: "(2::rat) powi k = (if 0 \<le> k then 2 ^ nat k else 1 / 2 ^ nat (- k))"
  by (simp add: power_int_def inverse_eq_divide power_one_over)

text \<open>
  Evaluation rules that apply to numerals only, so that the simplifier never unfolds the
  recursion of \<open>expo\<close> on a term that is not a number.
\<close>

lemmas expo_eval =
  expo.simps [of "numeral a / numeral b"] expo.simps [of "numeral a"]
  expo.simps [of "1 / numeral b"] expo.simps [of 1] for a b

lemmas rne_eval =
  rne_def [of "numeral a / numeral b"] rne_def [of "numeral a"]
  rne_def [of "1 / numeral b"] rne_def [of 1] rne_def [of 0]
  rne_def [of "- (numeral a / numeral b)"] rne_def [of "- numeral a"]
  rne_def [of "- (1 / numeral b)"] rne_def [of "- 1"] for a b

lemmas pow2_numeral =
  pow2_eval [of "numeral a"] pow2_eval [of "- numeral a"]
  pow2_eval [of 0] pow2_eval [of 1] pow2_eval [of "- 1"] for a

lemmas fl_eval =
  fl_def [of "numeral a / numeral b"] fl_def [of "numeral a"]
  fl_def [of "1 / numeral b"] fl_def [of 1] fl_zero fl_minus
  expo_eval rne_eval pow2_numeral Let_def for a b

lemmas float_eval = fadd_def fsub_def fmul_def fdiv_def float_of_int_def py_round_def
  py_int_def fl_eval

lemmas sm2_eval = update_ease_factor_def min_ease_factor_def max_ease_factor_def
  default_ease_factor_def default_interval_def float_eval

lemma min_le_max: "min_ease_factor \<le> max_ease_factor"
  by (simp add: sm2_eval)

lemma round_min: "py_round min_ease_factor 2 = min_ease_factor"
  by (simp add: sm2_eval)

lemma round_max: "py_round max_ease_factor 2 = max_ease_factor"
  by (simp add: sm2_eval)

lemma update_ease_factor_bounds:
  "min_ease_factor \<le> update_ease_factor e q \<and> update_ease_factor e q \<le> max_ease_factor"
proof -
  define v where "v = fadd e
              (fsub (fl (1 / 10))
                 (fmul (float_of_int (5 - q))
                    (fadd (fl (8 / 100)) (fmul (float_of_int (5 - q)) (fl (2 / 100))))))"
  let ?c = "max min_ease_factor (min max_ease_factor v)"
  have u: "update_ease_factor e q = py_round ?c 2"
    by (simp add: update_ease_factor_def Let_def v_def)
  have "min_ease_factor \<le> ?c" by simp
  then have "py_round min_ease_factor 2 \<le> py_round ?c 2" by (rule py_round_mono)
  moreover have "?c \<le> max_ease_factor" using min_le_max by simp
  then have "py_round ?c 2 \<le> py_round max_ease_factor 2" by (rule py_round_mono)
  ultimately show ?thesis unfolding u by (simp only: round_min round_max)
qed

lemma calculate_next_review_InrD:
  assumes "calculate_next_review cd quality now = Inr r"
  shows "rr_quality r = (if quality < 0 \<or> 4 < quality then 0 else quality)"
    and "rr_new_ease_factor r =
           update_ease_factor (dict_get (cd_ease_factor cd) default_ease_factor) (rr_quality r)"
    and "rr_review_count r = dict_get (cd_review_count cd) 0 + 1"
    and "rr_quality r < 3 \<Longrightarrow> rr_repetitions r = 0 \<and> rr_new_interval r = 1"
    and "3 \<le> rr_quality r \<Longrightarrow> rr_repetitions r = dict_get (cd_repetition_count cd) 0 + 1"
    and "3 \<le> rr_quality r \<Longrightarrow> rr_repetitions r = 1 \<Longrightarrow> rr_new_interval r = 1"
    and "3 \<le> rr_quality r \<Longrightarrow> rr_repetitions r = 2 \<Longrightarrow> rr_new_interval r = 6"
    and "3 \<le> rr_quality r \<Longrightarrow> rr_repetitions r \<noteq> 1 \<Longrightarrow> rr_repetitions r \<noteq> 2 \<Longrightarrow>
           int_times_float (dict_get (cd_interval cd) default_interval)
             (dict_get (cd_ease_factor cd) default_ease_factor) = Inr (rr_new_interval r)"
    and "datetime_add_days now (rr_new_interval r) = Inr (rr_next_review r)"
  using assms unfolding calculate_next_review_def Let_def
  by (auto split: if_splits sum.splits prod.splits)

lemma update_ease_factor_delta:
  "update_ease_factor e q =
     py_round (max min_ease_factor (min max_ease_factor (fadd e (ease_delta q)))) 2"
  by (simp add: update_ease_factor_def ease_delta_def Let_def)

lemma ease_delta_values:
  "ease_delta 0 = - (7205759403792793 / 9007199254740992)"
  "ease_delta 1 = - (607985949695017 / 1125899906842624)"
  "ease_delta 2 = - (1441151880758559 / 4503599627370496)"
  "ease_delta 3 = - (5044031582654955 / 36028797018963968)"
  "ease_delta 4 = 0"
  by (simp_all add: ease_delta_def float_eval)

lemma ease_delta_mono:
  assumes "0 \<le> q1" "q1 \<le> q2" "q2 \<le> 4"
  shows "ease_delta q1 \<le> ease_delta q2"
proof -
  have "q1 \<in> {0, 1, 2, 3, 4}" "q2 \<in> {0, 1, 2, 3, 4}" using assms by auto
  then show ?thesis using assms(2) by (auto simp: ease_delta_values)
qed

lemma float_of_int_nonneg: "0 \<le> i \<Longrightarrow> 0 \<le> float_of_int i"
  unfolding float_of_int_def using fl_mono [of 0 "of_int i"] by (simp add: fl_zero)

lemma fmul_nonneg: "0 \<le> a \<Longrightarrow> 0 \<le> b \<Longrightarrow> 0 \<le> fmul a b"
  unfolding fmul_def using fl_mono [of 0 "a * b"] by (simp add: fl_zero)

lemma int_times_float_floor:
  assumes "0 \<le> i" "0 \<le> x" "int_times_float i x = Inr n"
  shows "n = \<lfloor>fmul (float_of_int i) x\<rfloor>"
proof -
  have "0 \<le> fmul (float_of_int i) x"
    using assms(1,2) by (simp add: fmul_nonneg float_of_int_nonneg)
  then show ?thesis using assms(3)
    by (auto simp: int_times_float_def Let_def py_int_def split: if_splits)
qed


section \<open>The scheduler on the example cards\<close>

lemmas sched_eval = calculate_next_review_def dict_get_def int_times_float_def
  datetime_add_days_def datetime_max_def sm2_eval

lemma sched_fc2:
  "calculate_next_review (card_dict_of fc2) 4 now0 =
     Inr \<lparr>rr_card_id = 2, rr_quality = 4, rr_previous_interval = 6, rr_new_interval = 12,
          rr_previous_ease_factor = 2, rr_new_ease_factor = 2, rr_repetitions = 3,
          rr_next_review = 63930330927250000, rr_review_count = 3\<rparr>"
  by (simp add: card_dict_of_def fc2_def now0_def sched_eval cong: let_weak_cong)

lemma sched_fc1:
  "calculate_next_review (card_dict_of fc1) 3 now0 =
     Inr \<lparr>rr_card_id = 1, rr_quality = 3, rr_previous_interval = 1, rr_new_interval = 1,
          rr_previous_ease_factor = 5 / 2, rr_new_ease_factor = fl (236 / 100), rr_repetitions = 1,
          rr_next_review = 63929380527250000, rr_review_count = 1\<rparr>"
  by (simp add: card_dict_of_def fc1_def now0_def sched_eval cong: let_weak_cong)


section \<open>Evaluation of the matcher\<close>

lemmas matcher_eval = calculate_compatibility_def calculate_skill_compatibility_def
  calculate_interest_compatibility_def calculate_schedule_compatibility_def
  calculate_activity_compatibility_def calculate_size_compatibility_def int_true_divide_def
  lower_def lower_char_def float_eval


section \<open>Evaluation of the session manager\<close>

lemmas str_nat_eval = str_nat.simps [of "numeral a"] str_nat.simps [of 0] str_nat.simps [of 1]
  str_nat.simps [of "Suc 0"] for a

lemmas example_defs = now0_def now1_def now2_def now3_def now_half_def fc1_def fc2_def store0_def
  failing_store_def sid0_def session0_def registry0_def

lemmas session_eval = start_review_session_def review_card_def complete_session_def
  get_session_progress_def cleanup_expired_sessions_def update_card_in_database_def
  query_get_def int_true_divide_def total_seconds_def sched_eval
  get_due_cards_def query_cards_def is_card_due_def card_dict_of_def slice_to_def
  strftime_stamp_def civil_of_days_def zero_pad_def str_int_def digit_char_def str_nat_eval

section \<open>Properties of the scheduler\<close>

lemma int_times_float_returns:
  assumes "0 \<le> i" "i \<le> 100000" "0 \<le> x" "x \<le> 4"
  shows "\<exists>n. int_times_float i x = Inr n \<and> 0 \<le> n \<and> n \<le> 400000"
proof -
  have f0: "0 \<le> float_of_int i" using assms(1) by (rule float_of_int_nonneg)
  have "(of_int i :: rat) \<le> 100000" using assms(2) by simp
  then have "fl (of_int i) \<le> fl 100000" by (rule fl_mono)
  moreover have "fl 100000 = 100000" by (simp add: fl_eval)
  ultimately have f1: "float_of_int i \<le> 100000" by (simp add: float_of_int_def)
  have p0: "0 \<le> fmul (float_of_int i) x" using f0 assms(3) by (rule fmul_nonneg)
  have "float_of_int i * x \<le> 100000 * 4"
    using f0 f1 assms(3,4) by (intro mult_mono) simp_all
  then have "fl (float_of_int i * x) \<le> fl (100000 * 4)" by (rule fl_mono)
  moreover have "fl (100000 * 4) = 400000" by (simp add: fl_eval)
  ultimately have p1: "fmul (float_of_int i) x \<le> 400000" by (simp add: fmul_def)
  have big: "(400000 :: rat) < 2 ^ 1024" by simp
  have n1: "\<not> 2 ^ 1024 \<le> \<bar>float_of_int i\<bar>" using f0 f1 big by simp
  have n2: "\<not> 2 ^ 1024 \<le> \<bar>fmul (float_of_int i) x\<bar>" using p0 p1 big by simp
  have v: "int_times_float i x = Inr \<lfloor>fmul (float_of_int i) x\<rfloor>"
    using n1 n2 p0 by (simp add: int_times_float_def Let_def py_int_def)
  have "0 \<le> \<lfloor>fmul (float_of_int i) x\<rfloor>" using p0 by simp
  moreover have "\<lfloor>fmul (float_of_int i) x\<rfloor> \<le> 400000"
    using p1 by (simp add: floor_le_iff)
  ultimately show ?thesis using v by simp
qed

lemma datetime_add_days_returns:
  assumes "0 \<le> n" "n \<le> 400000" "0 \<le> t" "t \<le> datetime_max - 400000 * 86400000000"
  shows "\<exists>t'. datetime_add_days t n = Inr t'"
  using assms by (simp add: datetime_add_days_def Let_def)

text \<open>
  The scheduler returns a result for every quality when the interval is between 0 and 100000
  days, the ease factor between 0 and 4.0, and the clock at least 400000 days before the end
  of the calendar.
\<close>

lemma calculate_next_review_returns:
  assumes "0 \<le> dict_get (cd_interval card_data) default_interval"
      and "dict_get (cd_interval card_data) default_interval \<le> 100000"
      and "0 \<le> dict_get (cd_ease_factor card_data) default_ease_factor"
      and "dict_get (cd_ease_factor card_data) default_ease_factor \<le> max_ease_factor"
      and "0 \<le> now" "now \<le> datetime_max - 400000 * 86400000000"
  shows "\<exists>r. calculate_next_review card_data quality now = Inr r"
proof -
  have m: "max_ease_factor = 4" by (simp add: sm2_eval)
  obtain n where n: "int_times_float (dict_get (cd_interval card_data) default_interval)
        (dict_get (cd_ease_factor card_data) default_ease_factor) = Inr n" "0 \<le> n" "n \<le> 400000"
    using int_times_float_returns [OF assms(1,2,3)] assms(4) unfolding m by blast
  obtain t where t: "datetime_add_days now n = Inr t"
    using datetime_add_days_returns [OF n(2,3) assms(5,6)] by blast
  obtain t1 where t1: "datetime_add_days now 1 = Inr t1"
    using datetime_add_days_returns [OF _ _ assms(5,6), of 1] by auto
  obtain t6 where t6: "datetime_add_days now 6 = Inr t6"
    using datetime_add_days_returns [OF _ _ assms(5,6), of 6] by auto
  show ?thesis
    unfolding calculate_next_review_def Let_def using n(1) t t1 t6 by simp
qed

text \<open>
  C1. For every card whose ease factor lies between the floats 1.3 and 4.0 and every quality
  from 0 to 4, the ease factor of every result of \<open>calculate_next_review\<close> is the value of
  \<open>update_ease_factor\<close> and lies between the floats 1.3 and 4.0; and there is a result when
  the interval is between 0 and 100000 days and the clock at least 400000 days before the end
  of the calendar.
\<close>

theorem ease_factor_bounds:
  assumes "min_ease_factor \<le> dict_get (cd_ease_factor card_data) default_ease_factor"
      and "dict_get (cd_ease_factor card_data) default_ease_factor \<le> max_ease_factor"
      and "0 \<le> quality" "quality \<le> 4"
  shows "(\<forall>r. calculate_next_review card_data quality now = Inr r \<longrightarrow>
            rr_new_ease_factor r =
              update_ease_factor (dict_get (cd_ease_factor card_data) default_ease_factor) quality
          \<and> min_ease_factor \<le> rr_new_ease_factor r
          \<and> rr_new_ease_factor r \<le> max_ease_factor)
       \<and> (0 \<le> dict_get (cd_interval card_data) default_interval
          \<and> dict_get (cd_interval card_data) default_interval \<le> 100000
          \<and> 0 \<le> now \<and> now \<le> datetime_max - 400000 * 86400000000 \<longrightarrow>
            (\<exists>r. calculate_next_review card_data quality now = Inr r))"
proof -
  have "rr_new_ease_factor r =
          update_ease_factor (dict_get (cd_ease_factor card_data) default_ease_factor) quality
        \<and> min_ease_factor \<le> rr_new_ease_factor r \<and> rr_new_ease_factor r \<le> max_ease_factor"
    if r: "calculate_next_review card_data quality now = Inr r" for r
  proof -
    have "rr_quality r = quality"
      using calculate_next_review_InrD(1) [OF r] assms(3,4) by simp
    then have "rr_new_ease_factor r =
        update_ease_factor (dict_get (cd_ease_factor card_data) default_ease_factor) quality"
      using calculate_next_review_InrD(2) [OF r] by simp
    then show ?thesis using update_ease_factor_bounds by simp
  qed
  moreover have "0 \<le> dict_get (cd_ease_factor card_data) default_ease_factor"
  proof -
    have "0 \<le> min_ease_factor" by (simp add: sm2_eval)
    then show ?thesis using assms(1) by simp
  qed
  then have "0 \<le> dict_get (cd_interval card_data) default_interval
          \<and> dict_get (cd_interval card_data) default_interval \<le> 100000
          \<and> 0 \<le> now \<and> now \<le> datetime_max - 400000 * 86400000000 \<longrightarrow>
            (\<exists>r. calculate_next_review card_data quality now = Inr r)"
    using calculate_next_review_returns [of card_data now quality] assms(2) by blast
  ultimately show ?thesis by blast
qed

theorem ease_factor_bounds_witness:
  "min_ease_factor \<le> dict_get (cd_ease_factor (card_dict_of fc1)) default_ease_factor
   \<and> dict_get (cd_ease_factor (card_dict_of fc1)) default_ease_factor \<le> max_ease_factor
   \<and> (\<exists>r. calculate_next_review (card_dict_of fc1) 3 now0 = Inr r
        \<and> rr_new_ease_factor r = fl (236 / 100)
        \<and> min_ease_factor \<le> rr_new_ease_factor r \<and> rr_new_ease_factor r \<le> max_ease_factor)"
proof -
  have h1: "min_ease_factor \<le> dict_get (cd_ease_factor (card_dict_of fc1)) default_ease_factor"
    by (simp add: card_dict_of_def fc1_def dict_get_def sm2_eval)
  have h2: "dict_get (cd_ease_factor (card_dict_of fc1)) default_ease_factor \<le> max_ease_factor"
    by (simp add: card_dict_of_def fc1_def dict_get_def sm2_eval)
  have h3: "(0::int) \<le> 3" "(3::int) \<le> 4" by simp_all
  show ?thesis
    using ease_factor_bounds [OF h1 h2 h3, of now0] h1 h2 sched_fc1 by simp
qed

text \<open>
  C2. The SM-2 transition. For a quality from 0 to 4 and a card whose interval and ease factor
  are not negative (as in every scheduling state, where the interval is at least 1 and the ease
  factor at least 1.3), every result satisfies: a quality below 3 resets the repetition count
  to 0 and the interval to 1; a quality of 3 or 4 increments the repetition count, and the
  interval is 1 when the count becomes 1, 6 when it becomes 2, and the floor of the float
  product of the old interval and the old ease factor when it is 3 or more; the review count
  is incremented in every case. There is a result when the interval is at most 100000 days,
  the ease factor at most 4.0 and the clock at least 400000 days before the end of the
  calendar.
\<close>

theorem sm2_transition:
  assumes "0 \<le> quality" "quality \<le> 4"
      and "0 \<le> dict_get (cd_interval card_data) default_interval"
      and "0 \<le> dict_get (cd_ease_factor card_data) default_ease_factor"
  shows "(\<forall>r. calculate_next_review card_data quality now = Inr r \<longrightarrow>
           (quality < 3 \<longrightarrow> rr_repetitions r = 0 \<and> rr_new_interval r = 1)
         \<and> (3 \<le> quality \<longrightarrow>
              rr_repetitions r = dict_get (cd_repetition_count card_data) 0 + 1
            \<and> (rr_repetitions r = 1 \<longrightarrow> rr_new_interval r = 1)
            \<and> (rr_repetitions r = 2 \<longrightarrow> rr_new_interval r = 6)
            \<and> (3 \<le> rr_repetitions r \<longrightarrow>
                  rr_new_interval r =
                    \<lfloor>fmul (float_of_int (dict_get (cd_interval card_data) default_interval))
                            (dict_get (cd_ease_factor card_data) default_ease_factor)\<rfloor>))
         \<and> rr_review_count r = dict_get (cd_review_count card_data) 0 + 1)
       \<and> (dict_get (cd_interval card_data) default_interval \<le> 100000
          \<and> dict_get (cd_ease_factor card_data) default_ease_factor \<le> max_ease_factor
          \<and> 0 \<le> now \<and> now \<le> datetime_max - 400000 * 86400000000 \<longrightarrow>
            (\<exists>r. calculate_next_review card_data quality now = Inr r))"
proof -
  have "(quality < 3 \<longrightarrow> rr_repetitions r = 0 \<and> rr_new_interval r = 1)
       \<and> (3 \<le> quality \<longrightarrow>
            rr_repetitions r = dict_get (cd_repetition_count card_data) 0 + 1
          \<and> (rr_repetitions r = 1 \<longrightarrow> rr_new_interval r = 1)
          \<and> (rr_repetitions r = 2 \<longrightarrow> rr_new_interval r = 6)
          \<and> (3 \<le> rr_repetitions r \<longrightarrow>
                rr_new_interval r =
                  \<lfloor>fmul (float_of_int (dict_get (cd_interval card_data) default_interval))
                          (dict_get (cd_ease_factor card_data) default_ease_factor)\<rfloor>))
       \<and> rr_review_count r = dict_get (cd_review_count card_data) 0 + 1"
    if r: "calculate_next_review card_data quality now = Inr r" for r
  proof -
    note D = calculate_next_review_InrD [OF r]
    have q: "rr_quality r = quality" using D(1) assms(1,2) by simp
    have fail: "quality < 3 \<longrightarrow> rr_repetitions r = 0 \<and> rr_new_interval r = 1"
      using D(4) q by simp
    have reps: "3 \<le> quality \<longrightarrow>
        rr_repetitions r = dict_get (cd_repetition_count card_data) 0 + 1"
      using D(5) q by simp
    have one: "3 \<le> quality \<longrightarrow> rr_repetitions r = 1 \<longrightarrow> rr_new_interval r = 1"
      using D(6) q by simp
    have two: "3 \<le> quality \<longrightarrow> rr_repetitions r = 2 \<longrightarrow> rr_new_interval r = 6"
      using D(7) q by simp
    have more: "3 \<le> quality \<longrightarrow> 3 \<le> rr_repetitions r \<longrightarrow>
        rr_new_interval r =
          \<lfloor>fmul (float_of_int (dict_get (cd_interval card_data) default_interval))
                  (dict_get (cd_ease_factor card_data) default_ease_factor)\<rfloor>"
    proof (intro impI)
      assume a: "3 \<le> quality" "3 \<le> rr_repetitions r"
      have "int_times_float (dict_get (cd_interval card_data) default_interval)
              (dict_get (cd_ease_factor card_data) default_ease_factor) = Inr (rr_new_interval r)"
        using D(8) q a by simp
      then show "rr_new_interval r =
          \<lfloor>fmul (float_of_int (dict_get (cd_interval card_data) default_interval))
                  (dict_get (cd_ease_factor card_data) default_ease_factor)\<rfloor>"
        by (rule int_times_float_floor [OF assms(3,4)])
    qed
    show ?thesis using fail reps one two more D(3) by simp
  qed
  moreover have "dict_get (cd_interval card_data) default_interval \<le> 100000
          \<and> dict_get (cd_ease_factor card_data) default_ease_factor \<le> max_ease_factor
          \<and> 0 \<le> now \<and> now \<le> datetime_max - 400000 * 86400000000 \<longrightarrow>
            (\<exists>r. calculate_next_review card_data quality now = Inr r)"
    using calculate_next_review_returns [of card_data now quality] assms(3,4) by blast
  ultimately show ?thesis by blast
qed

theorem sm2_transition_witness:
  "0 \<le> dict_get (cd_interval (card_dict_of fc2)) default_interval
   \<and> 0 \<le> dict_get (cd_ease_factor (card_dict_of fc2)) default_ease_factor
   \<and> dict_get (cd_repetition_count (card_dict_of fc2)) 0 = 2
   \<and> (\<exists>r. calculate_next_review (card_dict_of fc2) 4 now0 = Inr r
        \<and> rr_repetitions r = 3 \<and> rr_new_interval r = 12 \<and> rr_review_count r = 3
        \<and> rr_new_interval r =
              \<lfloor>fmul (float_of_int (dict_get (cd_interval (card_dict_of fc2)) default_interval))
                      (dict_get (cd_ease_factor (card_dict_of fc2)) default_ease_factor)\<rfloor>)"
proof -
  have h1: "0 \<le> dict_get (cd_interval (card_dict_of fc2)) default_interval"
    by (simp add: card_dict_of_def fc2_def dict_get_def)
  have h2: "0 \<le> dict_get (cd_ease_factor (card_dict_of fc2)) default_ease_factor"
    by (simp add: card_dict_of_def fc2_def dict_get_def)
  have h3: "(0::int) \<le> 4" "(4::int) \<le> 4" by simp_all
  have h4: "dict_get (cd_repetition_count (card_dict_of fc2)) 0 = 2"
    by (simp add: card_dict_of_def fc2_def dict_get_def)
  show ?thesis
    using sm2_transition [OF h3 h1 h2, of now0] h1 h2 h4 sched_fc2 by simp
qed

text \<open>
  C6. For a fixed ease factor between the floats 1.3 and 4.0, the new ease factor does not
  decrease when the quality increases from \<open>q1\<close> to \<open>q2\<close> within 0..4, and both values stay
  between the floats 1.3 and 4.0.
\<close>

theorem ease_factor_monotone:
  assumes "min_ease_factor \<le> e" "e \<le> max_ease_factor"
      and "0 \<le> q1" "q1 \<le> q2" "q2 \<le> 4"
  shows "update_ease_factor e q1 \<le> update_ease_factor e q2
         \<and> min_ease_factor \<le> update_ease_factor e q1
         \<and> update_ease_factor e q2 \<le> max_ease_factor"
proof -
  have "e + ease_delta q1 \<le> e + ease_delta q2"
    using ease_delta_mono [OF assms(3-5)] by simp
  then have "fadd e (ease_delta q1) \<le> fadd e (ease_delta q2)"
    unfolding fadd_def by (rule fl_mono)
  then have "max min_ease_factor (min max_ease_factor (fadd e (ease_delta q1)))
             \<le> max min_ease_factor (min max_ease_factor (fadd e (ease_delta q2)))"
    by (simp add: max.coboundedI2 min.coboundedI2)
  then have "update_ease_factor e q1 \<le> update_ease_factor e q2"
    unfolding update_ease_factor_delta by (rule py_round_mono)
  then show ?thesis using update_ease_factor_bounds by simp
qed

theorem ease_factor_monotone_witness:
  "min_ease_factor \<le> 5 / 2 \<and> 5 / 2 \<le> max_ease_factor
   \<and> update_ease_factor (5 / 2) 2 \<le> update_ease_factor (5 / 2) 3
   \<and> update_ease_factor (5 / 2) 2 = fl (218 / 100)
   \<and> update_ease_factor (5 / 2) 3 = fl (236 / 100)"
proof -
  have h1: "min_ease_factor \<le> 5 / 2" by (simp add: sm2_eval)
  have h2: "5 / 2 \<le> max_ease_factor" by (simp add: sm2_eval)
  have h3: "(0::int) \<le> 2" "(2::int) \<le> 3" "(3::int) \<le> 4" by simp_all
  have v: "update_ease_factor (5 / 2) 2 = fl (218 / 100)"
      "update_ease_factor (5 / 2) 3 = fl (236 / 100)" by (simp_all add: sm2_eval)
  show ?thesis using ease_factor_monotone [OF h1 h2 h3] h1 h2 v by simp
qed

section \<open>The matcher\<close>

text \<open>
  C5. For a user of skill level "intermediate" with the one interest "algorithms", 10 coding
  hours and the schedule "flexible", and a group of skill level "intermediate" on the topic
  "algorithms" with 4 of 10 places taken, 10 average coding hours and the schedule "flexible",
  whatever the other fields are, the compatibility score is the float 0.97: the five
  sub-scores are 1.0, 1.0, 0.8, 1.0 and 1.0, and the weighted float sum is 0.97.
\<close>

theorem matcher_exact_match:
  "calculate_compatibility
     \<lparr>up_user_id = user_id, up_skill_level = ''intermediate'', up_interests = [''algorithms''],
      up_coding_hours_per_week = 10, up_preferred_schedule = ''flexible''\<rparr>
     \<lparr>gp_group_id = group_id, gp_name = name, gp_topic = ''algorithms'',
      gp_skill_level = ''intermediate'', gp_current_size = 4, gp_max_size = 10,
      gp_activity_level = activity_level, gp_member_skill_distribution = distribution,
      gp_average_coding_hours = 10, gp_preferred_schedule = ''flexible''\<rparr>
   = fl (97 / 100)
   \<and> calculate_skill_compatibility ''intermediate'' ''intermediate'' distribution = Inr 1
   \<and> calculate_interest_compatibility [''algorithms''] ''algorithms'' = 1
   \<and> calculate_schedule_compatibility ''flexible'' ''flexible'' = fl (8 / 10)
   \<and> calculate_activity_compatibility 10 10 = 1
   \<and> calculate_size_compatibility 4 10 = Inr 1"
  by (simp add: matcher_eval cong: let_weak_cong)

section \<open>Persistence failures\<close>

lemma update_card_in_database_fails:
  "query_raises store \<or> commit_raises store \<Longrightarrow> update_card_in_database rr now store = store"
  by (auto simp: update_card_in_database_def Let_def split: option.splits)

lemma review_card_response_store:
  "fst (review_card sid q now (reg, store)) = fst (review_card sid q now (reg, store'))"
  by (simp add: review_card_def Let_def split: option.splits sum.splits prod.splits)

lemma review_card_registry_store:
  "fst (snd (review_card sid q now (reg, store))) = fst (snd (review_card sid q now (reg, store')))"
  by (simp add: review_card_def Let_def split: option.splits sum.splits prod.splits)

lemma review_card_store_cases:
  "snd (snd (review_card sid q now (reg, store))) = store
   \<or> (\<exists>rr. snd (snd (review_card sid q now (reg, store))) = update_card_in_database rr now store)"
  by (auto simp: review_card_def Let_def split: option.splits sum.splits prod.splits)

lemma review_card_continue:
  assumes "map_of reg sid = Some s"
      and "fst (review_card sid q now (reg, store)) = Continue info"
  shows "\<exists>s'. map_of (fst (snd (review_card sid q now (reg, store)))) sid = Some s'
           \<and> s_cards s' = s_cards s
           \<and> s_current_card_index s' = s_current_card_index s + 1
           \<and> length (s_reviewed_cards s') = length (s_reviewed_cards s) + 1
           \<and> s_current_card_index s' < length (s_cards s)"
  using assms
  by (auto simp: review_card_def Let_def update_conv' split: option.splits sum.splits prod.splits if_splits)


lemma review_example_failing:
  "review_card sid0 4 now1 (registry0, failing_store)
   = (Continue \<lparr>ci_current_card = card_dict_of fc1, ci_completed = 1, ci_total = 2,
                 ci_remaining = 1, ci_quality = 4, ci_new_interval = 12,
                 ci_new_ease_factor = 2, ci_next_review = 63930330987250000\<rparr>,
      [(sid0, session0\<lparr>s_reviewed_cards :=
                  [\<lparr>re_card_id = 2, re_quality = 4, re_review_time = now1,
                    re_new_interval = 12, re_new_ease_factor = 2\<rparr>],
                s_current_card_index := 1\<rparr>)],
      failing_store)"
  by (simp add: session_eval example_defs cong: let_weak_cong)

text \<open>
  C3, as stated, fails: with a store that rejects the commit, \<open>review_card\<close> on the first
  card of the example session leaves the store as it was, and still logs the review, moves
  the cursor from 0 to 1 and answers "continue".
\<close>

theorem persistence_failure_counterexample:
  "commit_raises failing_store
   \<and> s_current_card_index session0 = 0 \<and> s_reviewed_cards session0 = []
   \<and> map_of registry0 sid0 = Some session0
   \<and> review_card sid0 4 now1 (registry0, failing_store)
     = (Continue \<lparr>ci_current_card = card_dict_of fc1, ci_completed = 1, ci_total = 2,
                   ci_remaining = 1, ci_quality = 4, ci_new_interval = 12,
                   ci_new_ease_factor = 2, ci_next_review = 63930330987250000\<rparr>,
        [(sid0, session0\<lparr>s_reviewed_cards :=
                    [\<lparr>re_card_id = 2, re_quality = 4, re_review_time = now1,
                      re_new_interval = 12, re_new_ease_factor = 2\<rparr>],
                  s_current_card_index := 1\<rparr>)],
        failing_store)"
  using review_example_failing
  by (simp add: failing_store_def store0_def session0_def registry0_def)

text \<open>
  C3, amended. When the persistence call fails (the query or the commit raises),
  \<open>_update_card_in_database\<close> only logs it: \<open>review_card\<close> returns the response and leaves the
  sessions that it returns and leaves when persistence succeeds, the store is unchanged, and
  after a "continue" response the cursor of the session has advanced by one and its log has
  one more entry.
\<close>

theorem persistence_failure_not_surfaced:
  assumes "query_raises store \<or> commit_raises store"
  shows "fst (review_card sid q now (reg, store))
           = fst (review_card sid q now (reg, store\<lparr>query_raises := False, commit_raises := False\<rparr>))
       \<and> fst (snd (review_card sid q now (reg, store)))
           = fst (snd (review_card sid q now
                         (reg, store\<lparr>query_raises := False, commit_raises := False\<rparr>)))
       \<and> snd (snd (review_card sid q now (reg, store))) = store
       \<and> (\<forall>s info. map_of reg sid = Some s
              \<and> fst (review_card sid q now (reg, store)) = Continue info \<longrightarrow>
              (\<exists>s'. map_of (fst (snd (review_card sid q now (reg, store)))) sid = Some s'
                 \<and> s_current_card_index s' = s_current_card_index s + 1
                 \<and> length (s_reviewed_cards s') = length (s_reviewed_cards s) + 1))"
proof -
  have "snd (snd (review_card sid q now (reg, store))) = store"
    using review_card_store_cases [of sid q now reg store]
      update_card_in_database_fails [OF assms] by auto
  moreover have "\<forall>s info. map_of reg sid = Some s
              \<and> fst (review_card sid q now (reg, store)) = Continue info \<longrightarrow>
              (\<exists>s'. map_of (fst (snd (review_card sid q now (reg, store)))) sid = Some s'
                 \<and> s_current_card_index s' = s_current_card_index s + 1
                 \<and> length (s_reviewed_cards s') = length (s_reviewed_cards s) + 1)"
    using review_card_continue by blast
  ultimately show ?thesis
    using review_card_response_store [of sid q now reg store]
      review_card_registry_store [of sid q now reg store] by simp
qed

theorem persistence_failure_not_surfaced_witness:
  "(query_raises failing_store \<or> commit_raises failing_store)
   \<and> fst (review_card sid0 4 now1 (registry0, failing_store))
       = fst (review_card sid0 4 now1 (registry0, store0))
   \<and> fst (snd (review_card sid0 4 now1 (registry0, failing_store)))
       = fst (snd (review_card sid0 4 now1 (registry0, store0)))
   \<and> snd (snd (review_card sid0 4 now1 (registry0, failing_store))) = failing_store"
proof -
  have h: "query_raises failing_store \<or> commit_raises failing_store"
    by (simp add: failing_store_def)
  have e: "failing_store\<lparr>query_raises := False, commit_raises := False\<rparr> = store0"
    by (simp add: failing_store_def store0_def)
  show ?thesis
    using persistence_failure_not_surfaced [OF h, of sid0 4 now1 registry0] h
    unfolding e by simp
qed

section \<open>Completion of a session\<close>

lemma review_card_last:
  assumes "map_of reg sid = Some s"
      and "s_current_card_index s + 1 = length (s_cards s)"
      and "\<forall>e. fst (review_card sid q now (reg, store)) \<noteq> Review_error e"
  shows "(\<exists>summary. fst (review_card sid q now (reg, store)) = Completed summary
            \<and> sm_total_cards_reviewed summary = length (s_reviewed_cards s) + 1)
         \<and> map_of (fst (snd (review_card sid q now (reg, store)))) sid = None"
  using assms
  by (auto simp: review_card_def complete_session_def Let_def update_conv' delete_conv'
           split: option.splits sum.splits prod.splits if_splits)

lemma review_card_inner:
  assumes "map_of reg sid = Some s"
      and "s_current_card_index s + 1 < length (s_cards s)"
      and "\<forall>e. fst (review_card sid q now (reg, store)) \<noteq> Review_error e"
  shows "\<exists>info. fst (review_card sid q now (reg, store)) = Continue info"
  using assms
  by (auto simp: review_card_def Let_def split: option.splits sum.splits prod.splits if_splits)

lemma review_card_absent:
  "map_of reg sid = None \<Longrightarrow>
     review_card sid q now (reg, store) = (Review_error Session_not_found, reg, store)"
  by (simp add: review_card_def)


lemma review_cards_Cons:
  "review_cards sid ((q, now) # calls) state =
     (fst (review_card sid q now state)
        # fst (review_cards sid calls (snd (review_card sid q now state))),
      snd (review_cards sid calls (snd (review_card sid q now state))))"
  by (simp split: prod.splits)

lemma review_cards_run:
  assumes "map_of reg sid = Some s"
      and "s_current_card_index s + length calls = length (s_cards s)"
      and "calls \<noteq> []"
      and "\<forall>r\<in>set (fst (review_cards sid calls (reg, store))). \<forall>e. r \<noteq> Review_error e"
  shows "length (fst (review_cards sid calls (reg, store))) = length calls
       \<and> (\<exists>summary. last (fst (review_cards sid calls (reg, store))) = Completed summary
             \<and> sm_total_cards_reviewed summary = length (s_reviewed_cards s) + length calls)
       \<and> (\<forall>r\<in>set (butlast (fst (review_cards sid calls (reg, store)))). \<exists>info. r = Continue info)
       \<and> map_of (fst (snd (review_cards sid calls (reg, store)))) sid = None"
  using assms
proof (induction calls arbitrary: reg store s)
  case Nil
  then show ?case by simp
next
  case (Cons c calls)
  obtain q now where c: "c = (q, now)" by (cases c)
  let ?step = "review_card sid q now (reg, store)"
  obtain reg1 store1 where st: "snd ?step = (reg1, store1)" by (cases "snd ?step")
  let ?rest = "review_cards sid calls (reg1, store1)"
  have unfold: "review_cards sid (c # calls) (reg, store) = (fst ?step # fst ?rest, snd ?rest)"
    unfolding c review_cards_Cons st by simp
  have ok: "\<forall>e. fst ?step \<noteq> Review_error e"
    using Cons.prems(4) unfolding unfold by simp
  have ok_rest: "\<forall>r\<in>set (fst ?rest). \<forall>e. r \<noteq> Review_error e"
    using Cons.prems(4) unfolding unfold by simp
  have reg1: "fst (snd ?step) = reg1" using st by simp
  show ?case
  proof (cases "calls = []")
    case True
    then have idx: "s_current_card_index s + 1 = length (s_cards s)"
      using Cons.prems(2) by simp
    show ?thesis
      using review_card_last [OF Cons.prems(1) idx ok] True reg1 unfolding unfold by simp
  next
    case False
    then have idx: "s_current_card_index s + 1 < length (s_cards s)"
      using Cons.prems(2) by (cases calls) simp_all
    obtain info where info: "fst ?step = Continue info"
      using review_card_inner [OF Cons.prems(1) idx ok] by blast
    obtain s' where s': "map_of reg1 sid = Some s'" "s_cards s' = s_cards s"
        "s_current_card_index s' = s_current_card_index s + 1"
        "length (s_reviewed_cards s') = length (s_reviewed_cards s) + 1"
      using review_card_continue [OF Cons.prems(1) info] reg1 by auto
    have idx': "s_current_card_index s' + length calls = length (s_cards s')"
      using Cons.prems(2) s'(2,3) by simp
    note IH = Cons.IH [OF s'(1) idx' False ok_rest]
    have ne: "fst ?rest \<noteq> []" using IH False by auto
    show ?thesis
      using IH ne info s'(4) unfolding unfold by auto
  qed
qed

lemma start_review_session_started:
  assumes "start_review_session user_id category max_cards now (reg, store)
             = (Session_started sid cards n cur cat, reg')"
  shows "cards \<noteq> [] \<and> n = length cards \<and> cur = 0
       \<and> (\<exists>s. map_of reg' sid = Some s \<and> s_cards s = cards
              \<and> s_current_card_index s = 0 \<and> s_reviewed_cards s = [] \<and> s_start_time s = now)"
  using assms
  by (auto simp: start_review_session_def Let_def update_conv' split: if_splits)

text \<open>
  C4, amended. For a session started with \<open>N \<ge> 1\<close> due cards and \<open>N\<close> successive
  \<open>review_card\<close> calls none of which fails, the first \<open>N - 1\<close> calls answer "continue", the
  \<open>N\<close>th returns the completion summary of \<open>N\<close> reviewed cards and deletes the session, and
  every \<open>review_card\<close> call on the registry it leaves fails with "Session not found".
\<close>

theorem session_completion:
  assumes "start_review_session user_id category max_cards now (reg, store)
             = (Session_started sid cards n cur cat, reg')"
      and "length calls = length cards"
      and "\<forall>r\<in>set (fst (review_cards sid calls (reg', store'))). \<forall>e. r \<noteq> Review_error e"
  shows "1 \<le> length cards
       \<and> length (fst (review_cards sid calls (reg', store'))) = length cards
       \<and> (\<forall>r\<in>set (butlast (fst (review_cards sid calls (reg', store')))). \<exists>info. r = Continue info)
       \<and> (\<exists>summary. last (fst (review_cards sid calls (reg', store'))) = Completed summary
             \<and> sm_total_cards_reviewed summary = length cards)
       \<and> (\<forall>q t store''.
             fst (review_card sid q t (fst (snd (review_cards sid calls (reg', store'))), store''))
               = Review_error Session_not_found)"
proof -
  obtain s where s: "cards \<noteq> []" "map_of reg' sid = Some s" "s_cards s = cards"
      "s_current_card_index s = 0" "s_reviewed_cards s = []"
    using start_review_session_started [OF assms(1)] by blast
  have idx: "s_current_card_index s + length calls = length (s_cards s)"
    using s(3,4) assms(2) by simp
  have ne: "calls \<noteq> []" using s(1) assms(2) by auto
  note R = review_cards_run [OF s(2) idx ne assms(3)]
  have "map_of (fst (snd (review_cards sid calls (reg', store')))) sid = None"
    using R by simp
  then have "\<forall>q t store''.
      fst (review_card sid q t (fst (snd (review_cards sid calls (reg', store'))), store''))
        = Review_error Session_not_found"
    by (simp add: review_card_absent)
  moreover have "1 \<le> length cards" using s(1) by (cases cards) simp_all
  ultimately show ?thesis using R s(5) assms(2) by simp
qed


lemma start_example:
  "start_review_session 7 None 20 now0 ([], store0)
   = (Session_started sid0 [card_dict_of fc2, card_dict_of fc1] 2 0 None, registry0)"
  by (simp add: session_eval example_defs cong: let_weak_cong)

lemma run_example:
  "review_cards sid0 [(4, now1), (3, now2)] (registry0, store0)
   = ([Continue \<lparr>ci_current_card = card_dict_of fc1, ci_completed = 1, ci_total = 2,
                  ci_remaining = 1, ci_quality = 4, ci_new_interval = 12,
                  ci_new_ease_factor = 2, ci_next_review = 63930330987250000\<rparr>,
       Completed \<lparr>sm_session_id = sid0, sm_total_cards_reviewed = 2,
                   sm_average_quality = 7 / 2, sm_duration_minutes = 2, sm_category = None,
                   sm_start_time = now0, sm_end_time = now2, sm_again = 0, sm_hard = 0,
                   sm_good = 0, sm_easy = 1, sm_perfect = 1\<rparr>],
      [],
      \<lparr>flashcards =
         [fc1\<lparr>fc_ease_factor := fl (236 / 100), fc_interval := 1, fc_repetition_count := 1,
              fc_review_count := 1, fc_last_reviewed := Some now2,
              fc_next_review := Some 63929380647250000\<rparr>,
          fc2\<lparr>fc_ease_factor := 2, fc_interval := 12, fc_repetition_count := 3,
              fc_review_count := 3, fc_last_reviewed := Some now1,
              fc_next_review := Some 63930330987250000\<rparr>],
       query_raises = False, commit_raises = False\<rparr>)"
  by (simp add: session_eval example_defs cong: let_weak_cong)

text \<open>
  C4, as stated, fails: after the two reviews of the example session, of which the second
  returns the completion summary, a further \<open>review_card\<close> call fails with "Session not
  found", not with "No more cards in session".
\<close>

theorem session_exhausted_counterexample:
  "start_review_session 7 None 20 now0 ([], store0)
     = (Session_started sid0 [card_dict_of fc2, card_dict_of fc1] 2 0 None, registry0)
   \<and> fst (review_cards sid0 [(4, now1), (3, now2)] (registry0, store0))
     = [Continue \<lparr>ci_current_card = card_dict_of fc1, ci_completed = 1, ci_total = 2,
                  ci_remaining = 1, ci_quality = 4, ci_new_interval = 12,
                  ci_new_ease_factor = 2, ci_next_review = 63930330987250000\<rparr>,
        Completed \<lparr>sm_session_id = sid0, sm_total_cards_reviewed = 2,
                   sm_average_quality = 7 / 2, sm_duration_minutes = 2, sm_category = None,
                   sm_start_time = now0, sm_end_time = now2, sm_again = 0, sm_hard = 0,
                   sm_good = 0, sm_easy = 1, sm_perfect = 1\<rparr>]
   \<and> fst (review_card sid0 4 now2
            (snd (review_cards sid0 [(4, now1), (3, now2)] (registry0, store0))))
     = Review_error Session_not_found
   \<and> Review_error Session_not_found \<noteq> Review_error No_more_cards_in_session"
  using start_example run_example by (simp add: review_card_def)

theorem session_completion_witness:
  "start_review_session 7 None 20 now0 ([], store0)
     = (Session_started sid0 [card_dict_of fc2, card_dict_of fc1] 2 0 None, registry0)
   \<and> length [(4::int, now1), (3, now2)] = length [card_dict_of fc2, card_dict_of fc1]
   \<and> (\<exists>summary. last (fst (review_cards sid0 [(4, now1), (3, now2)] (registry0, store0)))
                     = Completed summary
          \<and> sm_total_cards_reviewed summary = 2)
   \<and> fst (review_card sid0 4 now2
            (fst (snd (review_cards sid0 [(4, now1), (3, now2)] (registry0, store0))), store0))
     = Review_error Session_not_found"
proof -
  have h2: "length [(4::int, now1), (3, now2)] = length [card_dict_of fc2, card_dict_of fc1]"
    by simp
  have h3: "\<forall>r\<in>set (fst (review_cards sid0 [(4, now1), (3, now2)] (registry0, store0))).
              \<forall>e. r \<noteq> Review_error e"
    unfolding run_example by simp
  show ?thesis
    using session_completion [OF start_example h2 h3] start_example
    by (auto simp del: review_cards.simps simp: numeral_2_eq_2)
qed

section \<open>Expiry of sessions\<close>

lemma total_seconds_expired:
  assumes "7200000000 < t - s"
  shows "7200 < total_seconds t s"
proof -
  have "7200000001 \<le> t - s" using assms by simp
  then have "(of_int 7200000001 :: rat) \<le> of_int (t - s)" by (simp only: of_int_le_iff)
  then have "(7200000001 :: rat) / 1000000 \<le> of_int (t - s) / 1000000" by simp
  then have "fl (7200000001 / 1000000) \<le> fl (of_int (t - s) / 1000000)" by (rule fl_mono)
  moreover have "7200 < fl (7200000001 / 1000000)" by (simp add: fl_eval)
  ultimately show ?thesis unfolding total_seconds_def fdiv_def by simp
qed

lemma map_of_fold_delete_None:
  "map_of al k = None \<Longrightarrow> map_of (fold AList.delete ks al) k = None"
  by (induction ks arbitrary: al) (simp_all add: delete_conv')

lemma map_of_fold_delete:
  "k \<in> set ks \<Longrightarrow> map_of (fold AList.delete ks al) k = None"
proof (induction ks arbitrary: al)
  case Nil
  then show ?case by simp
next
  case (Cons x ks)
  show ?case
  proof (cases "k = x")
    case True
    have "map_of (AList.delete x al) k = None" using True by (simp add: delete_conv')
    then show ?thesis using map_of_fold_delete_None by simp
  next
    case False
    then show ?thesis using Cons by simp
  qed
qed

lemma get_session_progress_absent:
  "map_of reg sid = None \<Longrightarrow> get_session_progress sid now reg = Progress_error Session_not_found"
  by (simp add: get_session_progress_def)

text \<open>
  C8, as stated, fails: three hours after the example session was started, with no operation
  on it in between and no sweep, \<open>review_card\<close> and \<open>get_session_progress\<close> both succeed.
\<close>

theorem expired_session_counterexample:
  "map_of registry0 sid0 = Some session0
   \<and> now3 - s_start_time session0 = 3 * 3600 * 1000000
   \<and> fst (review_card sid0 4 now3 (registry0, store0))
     = Continue \<lparr>ci_current_card = card_dict_of fc1, ci_completed = 1, ci_total = 2,
                  ci_remaining = 1, ci_quality = 4, ci_new_interval = 12,
                  ci_new_ease_factor = 2, ci_next_review = 63930341727250000\<rparr>
   \<and> get_session_progress sid0 now3 registry0
     = Progress \<lparr>pi_session_id = sid0, pi_completed = 0, pi_total = 2, pi_remaining = 2,
                  pi_start_time = now0, pi_duration_minutes = 180, pi_category = None\<rparr>"
  by (simp add: session_eval example_defs cong: let_weak_cong)

text \<open>
  C8, amended. A session that was started more than 7200 seconds before the clock reading of
  a sweep (as is every session without activity for more than two hours) is deleted by
  \<open>cleanup_expired_sessions\<close>, and on the registry the sweep leaves every \<open>review_card\<close> and
  \<open>get_session_progress\<close> call with its id fails with "Session not found".
\<close>

theorem sweep_removes_expired:
  assumes "map_of reg sid = Some s"
      and "7200000000 < now - s_start_time s"
  shows "map_of (snd (cleanup_expired_sessions now reg)) sid = None
       \<and> 1 \<le> fst (cleanup_expired_sessions now reg)
       \<and> (\<forall>q t store. review_card sid q t (snd (cleanup_expired_sessions now reg), store)
              = (Review_error Session_not_found, snd (cleanup_expired_sessions now reg), store))
       \<and> (\<forall>t. get_session_progress sid t (snd (cleanup_expired_sessions now reg))
              = Progress_error Session_not_found)"
proof -
  let ?expired = "map fst (filter (\<lambda>(session_id, session).
                     total_seconds now (s_start_time session) > 7200) reg)"
  have "(sid, s) \<in> set reg" using assms(1) by (rule map_of_SomeD)
  moreover have "7200 < total_seconds now (s_start_time s)"
    using assms(2) by (rule total_seconds_expired)
  ultimately have mem: "sid \<in> set ?expired" by force
  have c: "cleanup_expired_sessions now reg = (length ?expired, fold AList.delete ?expired reg)"
    by (simp add: cleanup_expired_sessions_def Let_def)
  have gone: "map_of (snd (cleanup_expired_sessions now reg)) sid = None"
    unfolding c using map_of_fold_delete [OF mem] by simp
  have "0 < length ?expired" using mem by (rule length_pos_if_in_set)
  then have "1 \<le> length ?expired" by linarith
  then have "1 \<le> fst (cleanup_expired_sessions now reg)"
    unfolding c by (simp only: fst_conv)
  then show ?thesis
    using gone review_card_absent [OF gone] get_session_progress_absent [OF gone] by simp
qed

theorem sweep_removes_expired_witness:
  "map_of registry0 sid0 = Some session0
   \<and> 7200000000 < now3 - s_start_time session0
   \<and> cleanup_expired_sessions now3 registry0 = (1, [])
   \<and> review_card sid0 4 now3 (snd (cleanup_expired_sessions now3 registry0), store0)
       = (Review_error Session_not_found, [], store0)
   \<and> get_session_progress sid0 now3 (snd (cleanup_expired_sessions now3 registry0))
       = Progress_error Session_not_found"
proof -
  have h1: "map_of registry0 sid0 = Some session0" by (simp add: registry0_def)
  have h2: "7200000000 < now3 - s_start_time session0"
    by (simp add: session0_def now3_def now0_def)
  have c: "cleanup_expired_sessions now3 registry0 = (1, [])"
    by (simp add: session_eval example_defs cong: let_weak_cong)
  show ?thesis
    using sweep_removes_expired [OF h1 h2] h1 h2 c by simp
qed

section \<open>Progress snapshots\<close>

text \<open>
  C9, as stated, fails: two \<open>get_session_progress\<close> calls on the example session, one minute
  apart and with nothing in between, return different results.
\<close>

theorem progress_idempotence_counterexample:
  "get_session_progress sid0 now0 registry0
     = Progress \<lparr>pi_session_id = sid0, pi_completed = 0, pi_total = 2, pi_remaining = 2,
                  pi_start_time = now0, pi_duration_minutes = 0, pi_category = None\<rparr>
   \<and> get_session_progress sid0 now1 registry0
     = Progress \<lparr>pi_session_id = sid0, pi_completed = 0, pi_total = 2, pi_remaining = 2,
                  pi_start_time = now0, pi_duration_minutes = 1, pi_category = None\<rparr>
   \<and> get_session_progress sid0 now0 registry0 \<noteq> get_session_progress sid0 now1 registry0"
  by (simp add: session_eval example_defs cong: let_weak_cong)

text \<open>
  C9, amended. \<open>get_session_progress\<close> changes nothing, and two calls with the same session id
  on the same registry, at the clock readings \<open>t1\<close> and \<open>t2\<close>, both fail with "Session not
  found" or return results that agree in the session id, the progress counts, the start time
  and the category; the duration is computed from the clock reading of each call, so the two
  results are identical when the readings are.
\<close>

theorem progress_snapshot:
  "(map_of reg sid = None \<longrightarrow>
      get_session_progress sid t1 reg = Progress_error Session_not_found
      \<and> get_session_progress sid t2 reg = Progress_error Session_not_found)
   \<and> (\<forall>s. map_of reg sid = Some s \<longrightarrow>
        (\<exists>p1 p2. get_session_progress sid t1 reg = Progress p1
           \<and> get_session_progress sid t2 reg = Progress p2
           \<and> p2 = p1\<lparr>pi_duration_minutes := fdiv (total_seconds t2 (s_start_time s)) 60\<rparr>
           \<and> pi_duration_minutes p1 = fdiv (total_seconds t1 (s_start_time s)) 60
           \<and> pi_completed p1 = s_current_card_index s
           \<and> pi_total p1 = length (s_cards s)
           \<and> pi_remaining p1 = int (length (s_cards s)) - int (s_current_card_index s)))
   \<and> (t1 = t2 \<longrightarrow> get_session_progress sid t1 reg = get_session_progress sid t2 reg)"
  by (auto simp: get_session_progress_def)

theorem progress_snapshot_witness:
  "map_of registry0 sid0 = Some session0
   \<and> (\<exists>p1 p2. get_session_progress sid0 now0 registry0 = Progress p1
         \<and> get_session_progress sid0 now1 registry0 = Progress p2
         \<and> p2 = p1\<lparr>pi_duration_minutes := fdiv (total_seconds now1 (s_start_time session0)) 60\<rparr>
         \<and> pi_completed p1 = 0 \<and> pi_total p1 = 2 \<and> pi_remaining p1 = 2)"
proof -
  have h: "map_of registry0 sid0 = Some session0" by (simp add: registry0_def)
  have v: "s_current_card_index session0 = 0" "length (s_cards session0) = 2"
    by (simp_all add: session0_def)
  show ?thesis
    using progress_snapshot [of registry0 sid0 now0 now1] h v by auto
qed

section \<open>Starting a session with no due card\<close>

text \<open>
  C10, as stated, fails: the session id is the user id and the clock reading to the second.
  Half a second after user 7 started the example session, a second start for the same user,
  with a category that has no due card, returns the id of the example session with the empty
  list; \<open>get_session_progress\<close> and \<open>review_card\<close> with the returned id then succeed.
\<close>

theorem no_cards_due_counterexample:
  "start_review_session 7 None 20 now0 ([], store0)
     = (Session_started sid0 [card_dict_of fc2, card_dict_of fc1] 2 0 None, registry0)
   \<and> start_review_session 7 (Some ''databases'') 20 now_half (registry0, store0)
     = (No_cards_due sid0 [] 0, registry0)
   \<and> get_session_progress sid0 now1 registry0
     = Progress \<lparr>pi_session_id = sid0, pi_completed = 0, pi_total = 2, pi_remaining = 2,
                  pi_start_time = now0, pi_duration_minutes = 1, pi_category = None\<rparr>
   \<and> fst (review_card sid0 4 now1 (registry0, store0))
     = Continue \<lparr>ci_current_card = card_dict_of fc1, ci_completed = 1, ci_total = 2,
                  ci_remaining = 1, ci_quality = 4, ci_new_interval = 12,
                  ci_new_ease_factor = 2, ci_next_review = 63930330987250000\<rparr>"
  by (simp add: session_eval example_defs cong: let_weak_cong)

text \<open>
  C10, amended. When \<open>start_review_session\<close> finds no due card, it returns the session id built
  from the user id and the clock reading together with the empty card list, and leaves the
  registry as it was; if the registry holds no session under that id, every \<open>review_card\<close> and
  \<open>get_session_progress\<close> call with the returned id fails with "Session not found".
\<close>

theorem no_cards_due_session:
  assumes "get_due_cards user_id category max_cards now store = []"
  shows "start_review_session user_id category max_cards now (reg, store)
           = (No_cards_due (''session_'' @ str_int user_id @ ''_'' @ strftime_stamp now) [] 0, reg)
       \<and> (map_of reg (''session_'' @ str_int user_id @ ''_'' @ strftime_stamp now) = None \<longrightarrow>
            (\<forall>q t store'.
               review_card (''session_'' @ str_int user_id @ ''_'' @ strftime_stamp now) q t
                 (reg, store') = (Review_error Session_not_found, reg, store'))
          \<and> (\<forall>t. get_session_progress
                     (''session_'' @ str_int user_id @ ''_'' @ strftime_stamp now) t reg
                   = Progress_error Session_not_found))"
  using assms
  by (simp add: start_review_session_def Let_def review_card_absent get_session_progress_absent)

theorem no_cards_due_session_witness:
  "get_due_cards 7 (Some ''databases'') 20 now_half store0 = []
   \<and> start_review_session 7 (Some ''databases'') 20 now_half ([], store0)
       = (No_cards_due sid0 [] 0, [])
   \<and> review_card sid0 4 now1 ([], store0) = (Review_error Session_not_found, [], store0)
   \<and> get_session_progress sid0 now1 [] = Progress_error Session_not_found"
proof -
  have h: "get_due_cards 7 (Some ''databases'') 20 now_half store0 = []"
    by (simp add: session_eval example_defs cong: let_weak_cong)
  have i: "''session_'' @ str_int 7 @ ''_'' @ strftime_stamp now_half = sid0"
    by (simp add: session_eval example_defs cong: let_weak_cong)
  show ?thesis
    using no_cards_due_session [OF h, of "[]"] h unfolding i by simp
qed

section \<open>Order of the due cards\<close>

lemma insort_key_map:
  "insort_key f (g x) (map g ys) = map g (insort_key (\<lambda>y. f (g y)) x ys)"
  by (induction ys) simp_all

lemma sort_key_map:
  "sort_key f (map g xs) = map g (sort_key (\<lambda>y. f (g y)) xs)"
  by (induction xs) (simp_all add: insort_key_map)

lemma insort_key_same_order:
  "(\<forall>y\<in>set ys. (f x \<le> f y) = (g x \<le> g y)) \<Longrightarrow> insort_key f x ys = insort_key g x ys"
  by (induction ys) simp_all

lemma sort_key_same_order:
  "(\<forall>x\<in>set xs. \<forall>y\<in>set xs. (f x \<le> f y) = (g x \<le> g y)) \<Longrightarrow> sort_key f xs = sort_key g xs"
proof (induction xs)
  case Nil
  then show ?case by simp
next
  case (Cons x xs)
  have ih: "sort_key f xs = sort_key g xs" using Cons by simp
  have "\<forall>y\<in>set (sort_key g xs). (f x \<le> f y) = (g x \<le> g y)" using Cons.prems by simp
  then have "insort_key f x (sort_key g xs) = insort_key g x (sort_key g xs)"
    by (rule insort_key_same_order)
  then show ?case using ih by simp
qed

text \<open>
  What \<open>_get_due_cards\<close> computes: its dictionaries carry no \<open>next_review\<close>, so the first
  component of the sort key is the same for all of them, and the due cards are ordered by
  ascending ease factor alone, cards of equal ease factor in the order of the query.
\<close>

lemma get_due_cards_by_ease:
  assumes "\<not> query_raises store" "0 \<le> max_cards"
  shows "get_due_cards user_id category max_cards now store
           = map card_dict_of
               (take (nat max_cards)
                  (sort_key fc_ease_factor
                     (filter (\<lambda>fc. is_card_due fc now) (query_cards store user_id category))))"
proof -
  let ?due = "filter (\<lambda>fc. is_card_due fc now) (query_cards store user_id category)"
  let ?K = "\<lambda>x. (dict_get (cd_next_review x) 0 < now, dict_get (cd_ease_factor x) (fl (5 / 2)))"
  let ?C = "\<lambda>fc. ((0::int) < now, fc_ease_factor fc)"
  have code: "get_due_cards user_id category max_cards now store
                = take (nat max_cards) (sort_key ?K (map card_dict_of ?due))"
    using assms by (simp add: get_due_cards_def Let_def slice_to_def)
  have key: "(\<lambda>fc. ?K (card_dict_of fc)) = ?C"
    by (simp add: card_dict_of_def dict_get_def)
  have "\<forall>x\<in>set ?due. \<forall>y\<in>set ?due. (?C x \<le> ?C y) = (fc_ease_factor x \<le> fc_ease_factor y)"
    by auto
  then have same: "sort_key ?C ?due = sort_key fc_ease_factor ?due"
    by (rule sort_key_same_order)
  show ?thesis
    unfolding code sort_key_map key same by (simp add: take_map)
qed

text \<open>
  The cards that \<open>start_review_session\<close> returns and stores in the new session are the list of
  \<open>_get_due_cards\<close>, in its order.
\<close>

lemma start_review_session_cards:
  assumes "get_due_cards user_id category max_cards now store \<noteq> []"
  shows "\<exists>sid reg' s.
           start_review_session user_id category max_cards now (reg, store)
             = (Session_started sid (get_due_cards user_id category max_cards now store)
                  (length (get_due_cards user_id category max_cards now store)) 0 category, reg')
         \<and> map_of reg' sid = Some s
         \<and> s_cards s = get_due_cards user_id category max_cards now store
         \<and> s_current_card_index s = 0"
  using assms by (simp add: start_review_session_def Let_def update_conv')

text \<open>
  The order of the code is the order of the policy whenever no card of the user is due exactly
  at the clock reading: then every selected card is overdue.
\<close>

lemma get_due_cards_spec_order:
  assumes "\<not> query_raises store" "0 \<le> max_cards"
      and "\<forall>fc\<in>set (query_cards store user_id category). fc_next_review fc \<noteq> Some now"
  shows "get_due_cards user_id category max_cards now store
           = map card_dict_of
               (spec_ordered_cards
                  (filter (\<lambda>fc. is_card_due fc now) (query_cards store user_id category))
                  now (nat max_cards))"
proof -
  let ?due = "filter (\<lambda>fc. is_card_due fc now) (query_cards store user_id category)"
  let ?S = "\<lambda>fc. (\<not> spec_overdue fc now, fc_ease_factor fc)"
  have "\<forall>fc\<in>set ?due. spec_overdue fc now"
    using assms(3) by (auto simp: is_card_due_def spec_overdue_def split: option.splits)
  then have "\<forall>x\<in>set ?due. \<forall>y\<in>set ?due.
      (fc_ease_factor x \<le> fc_ease_factor y) = (?S x \<le> ?S y)"
    by simp
  then have "sort_key fc_ease_factor ?due = sort_key ?S ?due"
    by (rule sort_key_same_order)
  then show ?thesis
    unfolding get_due_cards_by_ease [OF assms(1,2)] spec_ordered_cards_def by simp
qed

text \<open>
  C7 fails on the code. The store holds two cards of user 7: a new card (no due date, ease
  factor 2.5) and a card that falls due exactly at the clock reading (ease factor 1.5). Both
  are selected; the new card is overdue and the other is not, so the policy puts the new card
  first. \<open>start_review_session\<close> returns and stores the card due now first, and with
  \<open>max_cards = 1\<close> its session holds that card alone, where the policy keeps the new card.
\<close>

theorem due_order_divergence:
  "filter (\<lambda>fc. is_card_due fc now0) (query_cards boundary_store 7 None) = [fc_absent, fc_due_now]
   \<and> spec_overdue fc_absent now0 \<and> \<not> spec_overdue fc_due_now now0
   \<and> start_review_session 7 None 20 now0 ([], boundary_store)
     = (Session_started sid0 [card_dict_of fc_due_now, card_dict_of fc_absent] 2 0 None,
        [(sid0, \<lparr>s_session_id = sid0, s_user_id = 7, s_start_time = now0,
                  s_cards = [card_dict_of fc_due_now, card_dict_of fc_absent],
                  s_current_card_index = 0, s_reviewed_cards = [], s_category = None,
                  s_max_cards = 20\<rparr>)])
   \<and> map card_dict_of (spec_ordered_cards [fc_absent, fc_due_now] now0 20)
     = [card_dict_of fc_absent, card_dict_of fc_due_now]
   \<and> start_review_session 7 None 1 now0 ([], boundary_store)
     = (Session_started sid0 [card_dict_of fc_due_now] 1 0 None,
        [(sid0, \<lparr>s_session_id = sid0, s_user_id = 7, s_start_time = now0,
                  s_cards = [card_dict_of fc_due_now],
                  s_current_card_index = 0, s_reviewed_cards = [], s_category = None,
                  s_max_cards = 1\<rparr>)])
   \<and> map card_dict_of (spec_ordered_cards [fc_absent, fc_due_now] now0 1)
     = [card_dict_of fc_absent]
   \<and> card_dict_of fc_due_now \<noteq> card_dict_of fc_absent"
  by (simp add: session_eval spec_ordered_cards_def spec_overdue_def example_defs
      fc_absent_def fc_due_now_def boundary_store_def cong: let_weak_cong)


end
